theory Spec2Isabelle
  imports Main "HOL-Library.Char_ord" "HOL-Library.List_Lexorder" "HOL-Library.Multiset"
begin

section \<open>Python values and the operations the script applies to them\<close>

text \<open>
  The script \<^verbatim>\<open>scripts/generate.py\<close> reads attributes of enzyme objects supplied by an
  external library. An attribute may be absent, and when present it holds an arbitrary
  Python value. The values modelled here are the ones JSON can carry: \<^verbatim>\<open>None\<close>, booleans,
  unbounded integers, strings, lists and string-keyed dictionaries (a dictionary is the list
  of its items in insertion order). A tuple behaves like the list of its elements under every
  operation the script applies (truth value, \<^verbatim>\<open>list(...)\<close>, \<^verbatim>\<open>json.dumps\<close>), so the
  supplier tuples of the library are represented by lists. A character of a string stands
  for the code point of the same number (0 to 255). Floating point numbers and other
  objects are outside the model.
\<close>

datatype pyval =
    PNone
  | PBool bool
  | PInt int
  | PStr string
  | PList "pyval list"
  | PDict "(string \<times> pyval) list"

text \<open>The two exceptions that the operations below can raise.\<close>

datatype py_error = AttributeError | TypeError

abbreviation DQUOTE :: char where "DQUOTE \<equiv> CHR 0x22"
abbreviation BACKSLASH :: char where "BACKSLASH \<equiv> CHR 0x5C"
abbreviation APOSTROPHE :: char where "APOSTROPHE \<equiv> CHR 0x27"
abbreviation NEWLINE :: char where "NEWLINE \<equiv> CHR 0x0A"

text \<open>
  An enzyme object: what \<^verbatim>\<open>str(enzyme)\<close> returns, and its attributes by name.
  Reading an attribute that the object does not have raises \<^verbatim>\<open>AttributeError\<close>.
\<close>

record enzyme =
  enzyme_str :: string
  enzyme_attrs :: "string \<Rightarrow> pyval option"

definition getattr :: "enzyme \<Rightarrow> string \<Rightarrow> py_error + pyval" where
  "getattr e a = (case enzyme_attrs e a of None \<Rightarrow> Inl AttributeError | Some v \<Rightarrow> Inr v)"

text \<open>\<^verbatim>\<open>v == k\<close> for an integer literal \<^verbatim>\<open>k\<close>: never raises; a boolean compares as 0 or 1.\<close>

fun py_eq_int :: "pyval \<Rightarrow> int \<Rightarrow> bool" where
  "py_eq_int (PInt n) k = (n = k)"
| "py_eq_int (PBool b) k = ((if b then 1 else 0) = k)"
| "py_eq_int PNone k = False"
| "py_eq_int (PStr s) k = False"
| "py_eq_int (PList xs) k = False"
| "py_eq_int (PDict kvs) k = False"

text \<open>\<^verbatim>\<open>v < k\<close> for an integer literal \<^verbatim>\<open>k\<close>: \<^verbatim>\<open>TypeError\<close> unless \<^verbatim>\<open>v\<close> is a number.\<close>

fun py_lt_int :: "pyval \<Rightarrow> int \<Rightarrow> py_error + bool" where
  "py_lt_int (PInt n) k = Inr (n < k)"
| "py_lt_int (PBool b) k = Inr ((if b then 1 else 0) < k)"
| "py_lt_int PNone k = Inl TypeError"
| "py_lt_int (PStr s) k = Inl TypeError"
| "py_lt_int (PList xs) k = Inl TypeError"
| "py_lt_int (PDict kvs) k = Inl TypeError"

text \<open>\<^verbatim>\<open>abs(v)\<close>.\<close>

fun py_abs :: "pyval \<Rightarrow> py_error + pyval" where
  "py_abs (PInt n) = Inr (PInt \<bar>n\<bar>)"
| "py_abs (PBool b) = Inr (PInt (if b then 1 else 0))"
| "py_abs PNone = Inl TypeError"
| "py_abs (PStr s) = Inl TypeError"
| "py_abs (PList xs) = Inl TypeError"
| "py_abs (PDict kvs) = Inl TypeError"

text \<open>The truth value of \<^verbatim>\<open>v\<close> in a condition.\<close>

fun py_truthy :: "pyval \<Rightarrow> bool" where
  "py_truthy PNone = False"
| "py_truthy (PBool b) = b"
| "py_truthy (PInt n) = (n \<noteq> 0)"
| "py_truthy (PStr s) = (s \<noteq> [])"
| "py_truthy (PList xs) = (xs \<noteq> [])"
| "py_truthy (PDict kvs) = (kvs \<noteq> [])"

text \<open>
  \<^verbatim>\<open>list(v)\<close>: the elements of an iterable (a string yields its characters as one-character
  strings, a dictionary its keys); \<^verbatim>\<open>TypeError\<close> for a value that is not iterable.
\<close>

fun py_list :: "pyval \<Rightarrow> py_error + pyval list" where
  "py_list (PList xs) = Inr xs"
| "py_list (PStr s) = Inr (map (\<lambda>c. PStr [c]) s)"
| "py_list (PDict kvs) = Inr (map (\<lambda>kv. PStr (fst kv)) kvs)"
| "py_list PNone = Inl TypeError"
| "py_list (PBool b) = Inl TypeError"
| "py_list (PInt n) = Inl TypeError"

section \<open>Overhang and record extraction\<close>

text \<open>\<^verbatim>\<open>get_overhang_info(enzyme)\<close>, lines 9 to 20.\<close>

definition get_overhang_info :: "enzyme \<Rightarrow> py_error + (pyval \<times> string)" where
  "get_overhang_info enzyme =
    (case getattr enzyme ''ovhg'' of
       Inl err \<Rightarrow> Inl err
     | Inr ovhg \<Rightarrow>
         if py_eq_int ovhg 0 then Inr (PInt 0, ''blunt'')
         else (case py_lt_int ovhg 0 of
                 Inl err \<Rightarrow> Inl err
               | Inr negative \<Rightarrow>
                   if negative
                   then (case py_abs ovhg of
                           Inl err \<Rightarrow> Inl err
                         | Inr a \<Rightarrow> Inr (a, [CHR ''5'', APOSTROPHE]))
                   else Inr (ovhg, [CHR ''3'', APOSTROPHE])))"

text \<open>
  The dictionary built by \<^verbatim>\<open>extract_enzyme_data\<close>: its seven keys are fixed, so it is a
  record; \<open>dict_items\<close> below gives its items in insertion order.
\<close>

record enzyme_data =
  name :: string
  site :: pyval
  forwardCut :: pyval
  reverseCut :: pyval
  overhangLength :: pyval
  overhangType :: string
  suppliers :: "pyval list"

text \<open>
  \<^verbatim>\<open>extract_enzyme_data(enzyme)\<close>, lines 23 to 35. The values of the dictionary display
  are evaluated in the order written; the conditional expression reads
  \<^verbatim>\<open>enzyme.suppl\<close>, tests its truth value and only then calls \<^verbatim>\<open>list\<close>.
\<close>

definition extract_enzyme_data :: "enzyme \<Rightarrow> py_error + enzyme_data" where
  "extract_enzyme_data enzyme =
    (case get_overhang_info enzyme of
       Inl err \<Rightarrow> Inl err
     | Inr (overhang_length, overhang_type) \<Rightarrow>
    (case getattr enzyme ''site'' of
       Inl err \<Rightarrow> Inl err
     | Inr site_value \<Rightarrow>
    (case getattr enzyme ''fst5'' of
       Inl err \<Rightarrow> Inl err
     | Inr fst5 \<Rightarrow>
    (case getattr enzyme ''fst3'' of
       Inl err \<Rightarrow> Inl err
     | Inr fst3 \<Rightarrow>
    (case getattr enzyme ''suppl'' of
       Inl err \<Rightarrow> Inl err
     | Inr suppl \<Rightarrow>
    (case (if py_truthy suppl then py_list suppl else Inr []) of
       Inl err \<Rightarrow> Inl err
     | Inr supplier_list \<Rightarrow>
         Inr \<lparr> name = enzyme_str enzyme,
               site = site_value,
               forwardCut = fst5,
               reverseCut = fst3,
               overhangLength = overhang_length,
               overhangType = overhang_type,
               suppliers = supplier_list \<rparr>))))))"

section \<open>The loop of \<^verbatim>\<open>main\<close> and the sort\<close>

text \<open>
  The body of the \<^verbatim>\<open>try\<close> block, lines 61 to 66: \<open>Inr None\<close> is \<^verbatim>\<open>continue\<close>,
  \<open>Inr (Some data)\<close> is an appended record, \<open>Inl err\<close> a raised exception.
\<close>

definition try_body :: "enzyme \<Rightarrow> py_error + enzyme_data option" where
  "try_body enzyme =
    (case getattr enzyme ''fst5'' of
       Inl err \<Rightarrow> Inl err
     | Inr fst5 \<Rightarrow>
         if fst5 = PNone then Inr None
         else (case getattr enzyme ''fst3'' of
                 Inl err \<Rightarrow> Inl err
               | Inr fst3 \<Rightarrow>
                   if fst3 = PNone then Inr None
                   else (case extract_enzyme_data enzyme of
                           Inl err \<Rightarrow> Inl err
                         | Inr data \<Rightarrow> Inr (Some data))))"

text \<open>
  The \<^verbatim>\<open>for\<close> loop, lines 59 to 69, over the entries in the order the collection yields
  them; \<open>enzymes\<close> is the list built so far. The handler catches \<^verbatim>\<open>AttributeError\<close>
  and \<^verbatim>\<open>TypeError\<close> and continues.
\<close>

fun main_loop :: "enzyme list \<Rightarrow> enzyme_data list \<Rightarrow> enzyme_data list" where
  "main_loop [] enzymes = enzymes"
| "main_loop (enzyme # rest) enzymes =
    (case try_body enzyme of
       Inr (Some data) \<Rightarrow> main_loop rest (enzymes @ [data])
     | Inr None \<Rightarrow> main_loop rest enzymes
     | Inl AttributeError \<Rightarrow> main_loop rest enzymes
     | Inl TypeError \<Rightarrow> main_loop rest enzymes)"

text \<open>
  The list \<^verbatim>\<open>enzymes\<close> after line 72: \<^verbatim>\<open>list.sort\<close> is a stable sort, here by the
  \<^verbatim>\<open>name\<close> entry; strings compare lexicographically by code point.
\<close>

definition sorted_enzymes :: "enzyme list \<Rightarrow> enzyme_data list" where
  "sorted_enzymes AllEnzymes = sort_key name (main_loop AllEnzymes [])"

section \<open>Serialisation\<close>

text \<open>
  \<^verbatim>\<open>str(n)\<close> for an integer, as \<^verbatim>\<open>json.dumps\<close> writes integers: decimal digits, a minus
  sign for a negative number, no leading zero.
\<close>

definition digit_char :: "nat \<Rightarrow> char" where
  "digit_char d = char_of (48 + d)"

fun digits :: "nat \<Rightarrow> string" where
  "digits n = (if n < 10 then [digit_char n] else digits (n div 10) @ [digit_char (n mod 10)])"

declare digits.simps [simp del]

definition py_str_int :: "int \<Rightarrow> string" where
  "py_str_int i = (if i < 0 then CHR ''-'' # digits (nat (- i)) else digits (nat i))"

text \<open>
  The string encoder of \<^verbatim>\<open>json.dumps\<close> with its default \<^verbatim>\<open>ensure_ascii=True\<close>: a
  backslash and a double quote are escaped, the five control characters with a short escape
  use it, every other character outside the range from space to tilde is written
  \<^verbatim>\<open>\uXXXX\<close> with four lower-case hexadecimal digits.
\<close>

definition hex_char :: "nat \<Rightarrow> char" where
  "hex_char d = (if d < 10 then char_of (48 + d) else char_of (87 + d))"

definition json_escape_char :: "char \<Rightarrow> string" where
  "json_escape_char c =
    (if c = BACKSLASH then [BACKSLASH, BACKSLASH]
     else if c = DQUOTE then [BACKSLASH, DQUOTE]
     else if c = CHR 0x08 then [BACKSLASH, CHR ''b'']
     else if c = CHR 0x0C then [BACKSLASH, CHR ''f'']
     else if c = NEWLINE then [BACKSLASH, CHR ''n'']
     else if c = CHR 0x0D then [BACKSLASH, CHR ''r'']
     else if c = CHR 0x09 then [BACKSLASH, CHR ''t'']
     else if 32 \<le> (of_char c :: nat) \<and> (of_char c :: nat) \<le> 126 then [c]
     else [BACKSLASH, CHR ''u'',
           hex_char (of_char c div 4096 mod 16), hex_char (of_char c div 256 mod 16),
           hex_char (of_char c div 16 mod 16), hex_char (of_char c mod 16)])"

definition encode_basestring_ascii :: "string \<Rightarrow> string" where
  "encode_basestring_ascii s = DQUOTE # concat (map json_escape_char s) @ [DQUOTE]"

text \<open>\<^verbatim>\<open>sep.join(parts)\<close>.\<close>

fun py_join :: "string \<Rightarrow> string list \<Rightarrow> string" where
  "py_join sep [] = []"
| "py_join sep [x] = x"
| "py_join sep (x # y # ys) = x @ sep @ py_join sep (y # ys)"

text \<open>
  \<^verbatim>\<open>json.dumps(obj, indent=2)\<close>: the encoder at nesting depth \<open>level\<close>. With an indent,
  the items of a non-empty list or dictionary each start on a line of their own, indented by
  two spaces per level, separated by a comma; a key and its value are separated by a colon
  and a space; the closing bracket stands on its own line at the outer level. An empty list
  is \<^verbatim>\<open>[]\<close> and an empty dictionary \<^verbatim>\<open>{}\<close>.
\<close>

definition newline_indent :: "nat \<Rightarrow> string" where
  "newline_indent level = NEWLINE # replicate (2 * level) (CHR '' '')"

fun json_encode :: "nat \<Rightarrow> pyval \<Rightarrow> string" where
  "json_encode level PNone = ''null''"
| "json_encode level (PBool b) = (if b then ''true'' else ''false'')"
| "json_encode level (PInt n) = py_str_int n"
| "json_encode level (PStr s) = encode_basestring_ascii s"
| "json_encode level (PList xs) =
    (if xs = [] then ''[]''
     else ''['' @ newline_indent (Suc level)
          @ py_join ('','' @ newline_indent (Suc level)) (map (json_encode (Suc level)) xs)
          @ newline_indent level @ '']'')"
| "json_encode level (PDict kvs) =
    (if kvs = [] then ''{}''
     else ''{'' @ newline_indent (Suc level)
          @ py_join ('','' @ newline_indent (Suc level))
              (map (\<lambda>(k, v). encode_basestring_ascii k @ '': '' @ json_encode (Suc level) v) kvs)
          @ newline_indent level @ ''}'')"

definition json_dumps :: "pyval \<Rightarrow> string" where
  "json_dumps obj = json_encode 0 obj"

text \<open>The items of the dictionary that \<open>extract_enzyme_data\<close> builds, in insertion order.\<close>

definition dict_items :: "enzyme_data \<Rightarrow> (string \<times> pyval) list" where
  "dict_items d =
    [(''name'', PStr (name d)),
     (''site'', site d),
     (''forwardCut'', forwardCut d),
     (''reverseCut'', reverseCut d),
     (''overhangLength'', overhangLength d),
     (''overhangType'', PStr (overhangType d)),
     (''suppliers'', PList (suppliers d))]"

text \<open>\<^verbatim>\<open>generate_typescript(enzymes)\<close>, lines 38 to 52.\<close>

definition generate_typescript :: "enzyme_data list \<Rightarrow> string" where
  "generate_typescript enzymes =
    (let lines =
           [''// Auto-generated from BioPython Bio.Restriction - DO NOT EDIT'',
            ''// Regenerate with: uv run generate-enzymes'',
            '''',
            ''import type { RestrictionEnzyme } from '' @ [DQUOTE] @ ''./types.js'' @ [DQUOTE] @ '';'',
            '''',
            ''export const enzymes: RestrictionEnzyme[] = ''];
         json_str = json_dumps (PList (map (\<lambda>d. PDict (dict_items d)) enzymes));
         lines = lines @ [json_str @ '';'']
     in py_join [NEWLINE] lines @ [NEWLINE])"

text \<open>
  \<^verbatim>\<open>main()\<close>, lines 55 to 81, as a function of the entries that \<^verbatim>\<open>AllEnzymes\<close> yields
  and of the output path: the text written to the file, and the line printed.
\<close>

definition main :: "string \<Rightarrow> enzyme list \<Rightarrow> string \<times> string" where
  "main output_path AllEnzymes =
    (let enzymes = sorted_enzymes AllEnzymes;
         ts_content = generate_typescript enzymes
     in (ts_content,
         ''Generated '' @ output_path @ '' with '' @ py_str_int (int (length enzymes))
           @ '' enzymes'' @ [NEWLINE]))"

section \<open>Auxiliary notions for the statements\<close>

text \<open>
  Python's \<^verbatim>\<open>s <= t\<close> on strings, written out: the first position where the two strings
  differ decides, by code point; a proper prefix is smaller.
\<close>

fun py_str_le :: "string \<Rightarrow> string \<Rightarrow> bool" where
  "py_str_le [] t = True"
| "py_str_le (c # s) [] = False"
| "py_str_le (c # s) (d # t) =
    ((of_char c :: nat) < of_char d \<or> (of_char c :: nat) = of_char d \<and> py_str_le s t)"

text \<open>What one iteration of the loop appends to the list: one record or nothing.\<close>

definition appended :: "enzyme \<Rightarrow> enzyme_data list" where
  "appended enzyme = (case try_body enzyme of Inr (Some data) \<Rightarrow> [data] | _ \<Rightarrow> [])"

section \<open>Example entries\<close>

text \<open>
  The entries of the examples of the specification (the recognition sites of PstI and SmaI,
  which the examples leave out, are the usual ones), an entry whose forward cut is
  \<^verbatim>\<open>None\<close>, entries that lack an attribute, and entries whose supplier value is a
  string or the number 0.
\<close>

definition EcoRI :: enzyme where
  "EcoRI = \<lparr> enzyme_str = ''EcoRI'',
             enzyme_attrs = [''site'' \<mapsto> PStr ''GAATTC'', ''fst5'' \<mapsto> PInt 1,
                             ''fst3'' \<mapsto> PInt (- 1), ''ovhg'' \<mapsto> PInt (- 4),
                             ''suppl'' \<mapsto> PList [PStr ''N'', PStr ''R'']] \<rparr>"

definition PstI :: enzyme where
  "PstI = \<lparr> enzyme_str = ''PstI'',
            enzyme_attrs = [''site'' \<mapsto> PStr ''CTGCAG'', ''fst5'' \<mapsto> PInt 5,
                            ''fst3'' \<mapsto> PInt 1, ''ovhg'' \<mapsto> PInt 4,
                            ''suppl'' \<mapsto> PList []] \<rparr>"

definition SmaI :: enzyme where
  "SmaI = \<lparr> enzyme_str = ''SmaI'',
            enzyme_attrs = [''site'' \<mapsto> PStr ''CCCGGG'', ''fst5'' \<mapsto> PInt 3,
                            ''fst3'' \<mapsto> PInt 3, ''ovhg'' \<mapsto> PInt 0,
                            ''suppl'' \<mapsto> PNone] \<rparr>"

definition no_cut :: enzyme where
  "no_cut = \<lparr> enzyme_str = ''AbaB8342IV'',
              enzyme_attrs = [''site'' \<mapsto> PStr ''CATTAG'', ''fst5'' \<mapsto> PNone,
                              ''fst3'' \<mapsto> PNone, ''ovhg'' \<mapsto> PNone,
                              ''suppl'' \<mapsto> PList []] \<rparr>"

definition no_site :: enzyme where
  "no_site = \<lparr> enzyme_str = ''BamHI'',
               enzyme_attrs = [''fst5'' \<mapsto> PInt 1, ''fst3'' \<mapsto> PInt (- 1),
                               ''ovhg'' \<mapsto> PInt (- 4), ''suppl'' \<mapsto> PList [PStr ''N'']] \<rparr>"

definition no_suppl :: enzyme where
  "no_suppl = \<lparr> enzyme_str = ''EcoRI'',
                enzyme_attrs = [''site'' \<mapsto> PStr ''GAATTC'', ''fst5'' \<mapsto> PInt 1,
                                ''fst3'' \<mapsto> PInt (- 1), ''ovhg'' \<mapsto> PInt (- 4)] \<rparr>"

definition text_suppl :: enzyme where
  "text_suppl = \<lparr> enzyme_str = ''EcoRI'',
                  enzyme_attrs = [''site'' \<mapsto> PStr ''GAATTC'', ''fst5'' \<mapsto> PInt 1,
                                  ''fst3'' \<mapsto> PInt (- 1), ''ovhg'' \<mapsto> PInt (- 4),
                                  ''suppl'' \<mapsto> PStr ''NR''] \<rparr>"

definition zero_suppl :: enzyme where
  "zero_suppl = \<lparr> enzyme_str = ''EcoRI'',
                  enzyme_attrs = [''site'' \<mapsto> PStr ''GAATTC'', ''fst5'' \<mapsto> PInt 1,
                                  ''fst3'' \<mapsto> PInt (- 1), ''ovhg'' \<mapsto> PInt (- 4),
                                  ''suppl'' \<mapsto> PInt 0] \<rparr>"

section \<open>Reading the generated text back\<close>

text \<open>
  The round-trip property needs a reader of JSON text. It is not part of the script: it
  follows the JSON grammar (RFC 8259) for the values of the model, as \<^verbatim>\<open>json.loads\<close>
  reads them: the literals \<^verbatim>\<open>null\<close>, \<^verbatim>\<open>true\<close> and \<^verbatim>\<open>false\<close>, integers, strings with
  their escapes, arrays and objects, with optional white space between the tokens. A number
  with a fraction or an exponent, a \<^verbatim>\<open>\uXXXX\<close> escape above 255 and a raw control
  character in a string are refused. The members of an object are returned in the order of
  the text.
\<close>

definition is_ws :: "char \<Rightarrow> bool" where
  "is_ws c = (c = CHR '' '' \<or> c = NEWLINE \<or> c = CHR 0x0D \<or> c = CHR 0x09)"

definition skip_ws :: "string \<Rightarrow> string" where
  "skip_ws s = dropWhile is_ws s"

definition is_digit :: "char \<Rightarrow> bool" where
  "is_digit c = (48 \<le> (of_char c :: nat) \<and> (of_char c :: nat) \<le> 57)"

definition nat_of_digits :: "string \<Rightarrow> nat" where
  "nat_of_digits ds = foldl (\<lambda>a c. 10 * a + (of_char c - 48)) 0 ds"

text \<open>
  The digits of a JSON integer: at least one, and no leading zero before another digit; the
  number must not go on with a fraction or an exponent.
\<close>

definition parse_digits :: "string \<Rightarrow> (nat \<times> string) option" where
  "parse_digits s =
    (let ds = takeWhile is_digit s; r = dropWhile is_digit s
     in if ds = [] then None
        else if hd ds = CHR ''0'' \<and> length ds \<noteq> 1 then None
        else if r \<noteq> [] \<and> (hd r = CHR ''.'' \<or> hd r = CHR ''e'' \<or> hd r = CHR ''E'') then None
        else Some (nat_of_digits ds, r))"

definition parse_int :: "string \<Rightarrow> (int \<times> string) option" where
  "parse_int s =
    (case s of
       [] \<Rightarrow> None
     | c # r \<Rightarrow>
         if c = CHR ''-''
         then map_option (\<lambda>(n, t). (- int n, t)) (parse_digits r)
         else map_option (\<lambda>(n, t). (int n, t)) (parse_digits s))"

definition hex_val :: "char \<Rightarrow> nat option" where
  "hex_val c =
    (let n = (of_char c :: nat)
     in if 48 \<le> n \<and> n \<le> 57 then Some (n - 48)
        else if 97 \<le> n \<and> n \<le> 102 then Some (n - 87)
        else if 65 \<le> n \<and> n \<le> 70 then Some (n - 55)
        else None)"

text \<open>The character that a two-character escape stands for.\<close>

definition unescape :: "char \<Rightarrow> char option" where
  "unescape e =
    (if e = DQUOTE then Some DQUOTE
     else if e = BACKSLASH then Some BACKSLASH
     else if e = CHR ''/'' then Some (CHR ''/'')
     else if e = CHR ''b'' then Some (CHR 0x08)
     else if e = CHR ''f'' then Some (CHR 0x0C)
     else if e = CHR ''n'' then Some NEWLINE
     else if e = CHR ''r'' then Some (CHR 0x0D)
     else if e = CHR ''t'' then Some (CHR 0x09)
     else None)"

text \<open>The characters of a string after its opening quote, up to the closing quote.\<close>

fun parse_chars :: "string \<Rightarrow> (string \<times> string) option" where
  "parse_chars [] = None"
| "parse_chars (c # cs) =
    (if c = DQUOTE then Some ([], cs)
     else if c = BACKSLASH then
       (case cs of
          [] \<Rightarrow> None
        | e # r \<Rightarrow>
            if e = CHR ''u'' then
              (case r of
                 h1 # h2 # h3 # h4 # r' \<Rightarrow>
                   (case (hex_val h1, hex_val h2, hex_val h3, hex_val h4) of
                      (Some a, Some b, Some c', Some d) \<Rightarrow>
                        if ((a * 16 + b) * 16 + c') * 16 + d < 256
                        then map_option
                               (\<lambda>(s, t). (char_of (((a * 16 + b) * 16 + c') * 16 + d) # s, t))
                               (parse_chars r')
                        else None
                    | _ \<Rightarrow> None)
               | _ \<Rightarrow> None)
            else (case unescape e of
                    None \<Rightarrow> None
                  | Some x \<Rightarrow> map_option (\<lambda>(s, t). (x # s, t)) (parse_chars r)))
     else if (of_char c :: nat) < 32 then None
     else map_option (\<lambda>(s, t). (c # s, t)) (parse_chars cs))"

text \<open>
  A value, the items of an array after its opening bracket, and the members of an object
  after its opening brace. The first argument bounds the depth of the calls.
\<close>

fun parse_value :: "nat \<Rightarrow> string \<Rightarrow> (pyval \<times> string) option"
and parse_items :: "nat \<Rightarrow> string \<Rightarrow> (pyval list \<times> string) option"
and parse_pairs :: "nat \<Rightarrow> string \<Rightarrow> ((string \<times> pyval) list \<times> string) option"
where
  "parse_value 0 s = None"
| "parse_value (Suc fuel) s =
    (case skip_ws s of
       [] \<Rightarrow> None
     | c # r \<Rightarrow>
         if c = CHR ''n'' then (if take 3 r = ''ull'' then Some (PNone, drop 3 r) else None)
         else if c = CHR ''t'' then (if take 3 r = ''rue'' then Some (PBool True, drop 3 r) else None)
         else if c = CHR ''f'' then (if take 4 r = ''alse'' then Some (PBool False, drop 4 r) else None)
         else if c = DQUOTE then map_option (\<lambda>(x, t). (PStr x, t)) (parse_chars r)
         else if c = CHR ''['' then
           (case skip_ws r of
              [] \<Rightarrow> None
            | d # t \<Rightarrow>
                if d = CHR '']'' then Some (PList [], t)
                else map_option (\<lambda>(xs, u). (PList xs, u)) (parse_items fuel r))
         else if c = CHR ''{'' then
           (case skip_ws r of
              [] \<Rightarrow> None
            | d # t \<Rightarrow>
                if d = CHR ''}'' then Some (PDict [], t)
                else map_option (\<lambda>(kvs, u). (PDict kvs, u)) (parse_pairs fuel r))
         else map_option (\<lambda>(n, t). (PInt n, t)) (parse_int (c # r)))"
| "parse_items 0 s = None"
| "parse_items (Suc fuel) s =
    (case parse_value fuel s of
       None \<Rightarrow> None
     | Some (v, r) \<Rightarrow>
         (case skip_ws r of
            [] \<Rightarrow> None
          | c # t \<Rightarrow>
              if c = CHR '']'' then Some ([v], t)
              else if c = CHR '','' then map_option (\<lambda>(vs, u). (v # vs, u)) (parse_items fuel t)
              else None))"
| "parse_pairs 0 s = None"
| "parse_pairs (Suc fuel) s =
    (case skip_ws s of
       [] \<Rightarrow> None
     | q # r \<Rightarrow>
         if q = DQUOTE then
           (case parse_chars r of
              None \<Rightarrow> None
            | Some (k, r1) \<Rightarrow>
                (case skip_ws r1 of
                   [] \<Rightarrow> None
                 | c1 # r2 \<Rightarrow>
                     if c1 = CHR '':'' then
                       (case parse_value fuel r2 of
                          None \<Rightarrow> None
                        | Some (v, r3) \<Rightarrow>
                            (case skip_ws r3 of
                               [] \<Rightarrow> None
                             | c3 # t \<Rightarrow>
                                 if c3 = CHR ''}'' then Some ([(k, v)], t)
                                 else if c3 = CHR '','' then
                                   map_option (\<lambda>(kvs, u). ((k, v) # kvs, u)) (parse_pairs fuel t)
                                 else None))
                     else None))
         else None)"

text \<open>
  A whole JSON text: one value, then nothing but white space. The length of the text bounds
  the depth of the calls that reading it can need.
\<close>

definition json_loads :: "string \<Rightarrow> pyval option" where
  "json_loads s =
    (case parse_value (Suc (length s)) s of
       None \<Rightarrow> None
     | Some (v, r) \<Rightarrow> if skip_ws r = [] then Some v else None)"

text \<open>
  The JSON array embedded in a generated file: what stands between the six header lines and
  the final semicolon and newline.
\<close>

definition ts_header :: string where
  "ts_header =
     ''// Auto-generated from BioPython Bio.Restriction - DO NOT EDIT'' @ [NEWLINE]
     @ ''// Regenerate with: uv run generate-enzymes'' @ [NEWLINE]
     @ [NEWLINE]
     @ ''import type { RestrictionEnzyme } from '' @ [DQUOTE] @ ''./types.js'' @ [DQUOTE] @ '';''
     @ [NEWLINE]
     @ [NEWLINE]
     @ ''export const enzymes: RestrictionEnzyme[] = '' @ [NEWLINE]"

definition embedded_json :: "string \<Rightarrow> string option" where
  "embedded_json text =
    (let n = length ts_header; m = length text
     in if n + 2 \<le> m \<and> take n text = ts_header \<and> drop (m - 2) text = '';'' @ [NEWLINE]
        then Some (take (m - 2 - n) (drop n text))
        else None)"

text \<open>A parsed object as a record, when it has exactly the seven members in order.\<close>

definition record_of_dict :: "pyval \<Rightarrow> enzyme_data option" where
  "record_of_dict v =
    (case v of
       PDict [(k1, PStr n), (k2, s), (k3, f), (k4, r), (k5, l), (k6, PStr ty), (k7, PList sl)] \<Rightarrow>
         if [k1, k2, k3, k4, k5, k6, k7] =
              [''name'', ''site'', ''forwardCut'', ''reverseCut'', ''overhangLength'',
               ''overhangType'', ''suppliers'']
         then Some \<lparr> name = n, site = s, forwardCut = f, reverseCut = r, overhangLength = l,
                      overhangType = ty, suppliers = sl \<rparr>
         else None
     | _ \<Rightarrow> None)"

fun records_of_items :: "pyval list \<Rightarrow> enzyme_data list option" where
  "records_of_items [] = Some []"
| "records_of_items (v # vs) =
    (case record_of_dict v of
       None \<Rightarrow> None
     | Some d \<Rightarrow> map_option (\<lambda>ds. d # ds) (records_of_items vs))"

text \<open>The record list read back from a generated file.\<close>

definition read_generated :: "string \<Rightarrow> enzyme_data list option" where
  "read_generated text =
    (case embedded_json text of
       None \<Rightarrow> None
     | Some js \<Rightarrow>
         (case json_loads js of
            Some (PList vs) \<Rightarrow> records_of_items vs
          | _ \<Rightarrow> None))"

text \<open>
  What may follow a value in the texts considered: nothing, a comma, a newline or the
  semicolon that ends the declaration.
\<close>

definition delimited :: "string \<Rightarrow> bool" where
  "delimited rest = (rest = [] \<or> hd rest = CHR '','' \<or> hd rest = NEWLINE \<or> hd rest = CHR '';'')"

section \<open>Basic facts\<close>

lemma main_loop_appended: "main_loop es acc = acc @ concat (map appended es)"
  by (induction es arbitrary: acc)
     (auto simp: appended_def split: sum.splits option.splits py_error.splits)

lemma py_str_le_iff: "py_str_le s t \<longleftrightarrow> s \<le> t"
  by (induction s t rule: py_str_le.induct) (auto simp: less_char_def)

lemma try_body_Some:
  assumes "try_body e = Inr (Some d)"
  shows "extract_enzyme_data e = Inr d"
    and "enzyme_attrs e ''fst5'' = Some (forwardCut d)"
    and "enzyme_attrs e ''fst3'' = Some (reverseCut d)"
    and "forwardCut d \<noteq> PNone" and "reverseCut d \<noteq> PNone"
  using assms
  by (auto simp: try_body_def extract_enzyme_data_def getattr_def
           split: sum.splits option.splits if_splits prod.splits)

lemma set_sorted_enzymes: "set (sorted_enzymes es) = (\<Union>e \<in> set es. set (appended e))"
  by (simp add: sorted_enzymes_def main_loop_appended)

lemma appended_cases: "d \<in> set (appended e) \<Longrightarrow> try_body e = Inr (Some d)"
  by (auto simp: appended_def split: sum.splits option.splits)

lemmas example_defs = EcoRI_def PstI_def SmaI_def no_cut_def no_site_def no_suppl_def text_suppl_def

lemmas extraction_defs =
  try_body_def extract_enzyme_data_def get_overhang_info_def getattr_def appended_def

lemma mset_main_loop: "mset (main_loop es []) = (\<Sum>e \<in># mset es. mset (appended e))"
  by (induction es) (simp_all add: main_loop_appended)

lemma length_digits_single: "n < 10 \<Longrightarrow> digits n = [digit_char n]"
  by (simp add: digits.simps)

lemma digit_char_simps:
  "digit_char 0 = CHR ''0''" "digit_char (Suc 0) = CHR ''1''" "digit_char 2 = CHR ''2''"
  "digit_char 3 = CHR ''3''" "digit_char 4 = CHR ''4''" "digit_char 5 = CHR ''5''"
  "digit_char 6 = CHR ''6''" "digit_char 7 = CHR ''7''" "digit_char 8 = CHR ''8''"
  "digit_char 9 = CHR ''9''"
  by (simp_all add: digit_char_def char_of_def bit_Suc_0_iff)

lemma py_str_int_small:
  "py_str_int 0 = ''0''" "py_str_int 1 = ''1''" "py_str_int (- 1) = ''-1''" "py_str_int 4 = ''4''"
  by (simp_all add: py_str_int_def length_digits_single digit_char_simps)

lemma extract_enzyme_data_suppl:
  assumes "extract_enzyme_data e = Inr d"
  obtains suppl where "enzyme_attrs e ''suppl'' = Some suppl"
    and "(if py_truthy suppl then py_list suppl else Inr []) = Inr (suppliers d)"
proof -
  from assms obtain suppl supplier_list where
    "getattr e ''suppl'' = Inr suppl"
    "(if py_truthy suppl then py_list suppl else Inr []) = Inr supplier_list"
    "suppliers d = supplier_list"
    unfolding extract_enzyme_data_def
    by (auto split: sum.splits prod.splits)
  then show thesis
    using that by (auto simp: getattr_def split: option.splits)
qed

lemma of_char_less_256: "(of_char c :: nat) < 256"
proof -
  have "(of_char c :: nat) mod 256 = of_char c" by (rule of_char_mod_256)
  then show ?thesis by (metis mod_less_divisor zero_less_numeral)
qed

lemma is_ws_simps [simp]:
  "is_ws (CHR '' '')" "is_ws NEWLINE"
  "\<not> is_ws (CHR '','')" "\<not> is_ws (CHR '']'')" "\<not> is_ws (CHR ''}'')" "\<not> is_ws (CHR '':'')"
  "\<not> is_ws DQUOTE" "\<not> is_ws (CHR ''['')" "\<not> is_ws (CHR ''{'')" "\<not> is_ws (CHR '';'')"
  "\<not> is_ws (CHR ''n'')" "\<not> is_ws (CHR ''t'')" "\<not> is_ws (CHR ''f'')" "\<not> is_ws (CHR ''-'')"
  by (simp_all add: is_ws_def)

lemma skip_ws_Nil [simp]: "skip_ws [] = []"
  by (simp add: skip_ws_def)

lemma skip_ws_Cons: "skip_ws (c # s) = (if is_ws c then skip_ws s else c # s)"
  by (simp add: skip_ws_def)

lemma skip_ws_replicate [simp]: "skip_ws (replicate n (CHR '' '') @ s) = skip_ws s"
  by (induction n) (simp_all add: skip_ws_Cons)

lemma skip_ws_newline_indent [simp]: "skip_ws (newline_indent level @ s) = skip_ws s"
  by (simp add: newline_indent_def skip_ws_Cons)

lemma parse_value_skip_ws: "parse_value fuel (skip_ws s) = parse_value fuel s"
  by (cases fuel) (simp_all add: skip_ws_def)

lemma parse_value_ws: "skip_ws s = skip_ws s' \<Longrightarrow> parse_value fuel s = parse_value fuel s'"
  by (metis parse_value_skip_ws)

lemma parse_items_ws: "skip_ws s = skip_ws s' \<Longrightarrow> parse_items fuel s = parse_items fuel s'"
  by (cases fuel) (simp_all add: parse_value_ws [of s s'])

lemma parse_pairs_ws: "skip_ws s = skip_ws s' \<Longrightarrow> parse_pairs fuel s = parse_pairs fuel s'"
  by (cases fuel) simp_all

lemma is_digit_digit_char: "d < 10 \<Longrightarrow> is_digit (digit_char d)"
  by (simp add: is_digit_def digit_char_def)

lemma of_char_digit_char: "d < 10 \<Longrightarrow> (of_char (digit_char d) :: nat) = 48 + d"
  by (simp add: digit_char_def)

lemma digits_all_digit: "\<forall>c \<in> set (digits n). is_digit c"
proof (induction n rule: digits.induct)
  case (1 n)
  show ?case
  proof (cases "n < 10")
    case True
    then show ?thesis by (simp add: digits.simps [of n] is_digit_digit_char)
  next
    case False
    with 1 show ?thesis by (simp add: digits.simps [of n] is_digit_digit_char)
  qed
qed

lemma digits_not_Nil: "digits n \<noteq> []"
  by (subst digits.simps) simp

lemma nat_of_digits_snoc: "nat_of_digits (ds @ [c]) = 10 * nat_of_digits ds + (of_char c - 48)"
  by (simp add: nat_of_digits_def)

lemma nat_of_digits_digits: "nat_of_digits (digits n) = n"
proof (induction n rule: digits.induct)
  case (1 n)
  show ?case
  proof (cases "n < 10")
    case True
    then show ?thesis
      by (simp add: digits.simps [of n] nat_of_digits_def of_char_digit_char)
  next
    case False
    with 1 show ?thesis
      by (simp add: digits.simps [of n] nat_of_digits_snoc of_char_digit_char)
  qed
qed

lemma digit_char_zero_iff: "d < 10 \<Longrightarrow> digit_char d = CHR ''0'' \<longleftrightarrow> d = 0"
proof -
  assume d: "d < 10"
  have z: "(of_char (CHR ''0'') :: nat) = 48" by simp
  show ?thesis
  proof
    assume "digit_char d = CHR ''0''"
    then have "(of_char (digit_char d) :: nat) = 48" using z by simp
    with d show "d = 0" by (simp add: of_char_digit_char)
  next
    assume "d = 0" then show "digit_char d = CHR ''0''" by (simp add: digit_char_simps)
  qed
qed

lemma hd_digits_zero: "hd (digits n) = CHR ''0'' \<Longrightarrow> n = 0"
proof (induction n rule: digits.induct)
  case (1 n)
  show ?case
  proof (cases "n < 10")
    case True
    with 1(2) show ?thesis by (simp add: digits.simps [of n] digit_char_zero_iff)
  next
    case False
    with 1(2) have "hd (digits (n div 10)) = CHR ''0''"
      by (simp add: digits.simps [of n] digits_not_Nil)
    with 1(1) False have "n div 10 = 0" by simp
    with False show ?thesis by simp
  qed
qed

lemma digits_zero: "digits 0 = ''0''"
  by (simp add: digits.simps [of 0] digit_char_simps)

lemma delimitedE:
  assumes "delimited rest"
  shows "rest = [] \<or> (\<not> is_digit (hd rest) \<and> hd rest \<noteq> CHR ''.'' \<and> hd rest \<noteq> CHR ''e''
           \<and> hd rest \<noteq> CHR ''E'')"
  using assms by (auto simp: delimited_def is_digit_def)

lemma takeWhile_digits:
  assumes "rest = [] \<or> \<not> is_digit (hd rest)"
  shows "takeWhile is_digit (digits n @ rest) = digits n"
    and "dropWhile is_digit (digits n @ rest) = rest"
proof -
  have a: "\<forall>c \<in> set (digits n). is_digit c" by (rule digits_all_digit)
  have t: "takeWhile is_digit rest = []" using assms by (cases rest) auto
  have d: "dropWhile is_digit rest = rest" using assms by (cases rest) auto
  show "takeWhile is_digit (digits n @ rest) = digits n"
    using a t by (simp add: takeWhile_append2)
  show "dropWhile is_digit (digits n @ rest) = rest"
    using a d by (simp add: dropWhile_append2)
qed

lemma parse_digits_digits:
  assumes "delimited rest"
  shows "parse_digits (digits n @ rest) = Some (n, rest)"
proof -
  from delimitedE [OF assms] have r: "rest = [] \<or> \<not> is_digit (hd rest)" by blast
  have z: "\<not> (hd (digits n) = CHR ''0'' \<and> length (digits n) \<noteq> 1)"
  proof
    assume h: "hd (digits n) = CHR ''0'' \<and> length (digits n) \<noteq> 1"
    then have "n = 0" by (simp add: hd_digits_zero)
    with h show False by (simp add: digits_zero)
  qed
  have e: "\<not> (rest \<noteq> [] \<and> (hd rest = CHR ''.'' \<or> hd rest = CHR ''e'' \<or> hd rest = CHR ''E''))"
    using delimitedE [OF assms] by blast
  show ?thesis
    unfolding parse_digits_def Let_def takeWhile_digits [OF r]
    using z e by (simp add: digits_not_Nil nat_of_digits_digits)
qed

lemma hd_digits_not_minus: "hd (digits n) \<noteq> CHR ''-''"
proof -
  have "is_digit (hd (digits n))"
    using digits_all_digit [of n] digits_not_Nil [of n] by (cases "digits n") auto
  then show ?thesis by (auto simp: is_digit_def)
qed

lemma parse_int_py_str_int:
  assumes "delimited rest"
  shows "parse_int (py_str_int i @ rest) = Some (i, rest)"
proof (cases "i < 0")
  case True
  then show ?thesis
    by (simp add: parse_int_def py_str_int_def parse_digits_digits [OF assms])
next
  case False
  obtain c cs where d: "digits (nat i) = c # cs"
    using digits_not_Nil [of "nat i"] by (cases "digits (nat i)") auto
  with hd_digits_not_minus [of "nat i"] have c: "c \<noteq> CHR ''-''" by simp
  have "parse_digits (c # cs @ rest) = Some (nat i, rest)"
    using parse_digits_digits [OF assms, of "nat i"] d by simp
  with False c d show ?thesis
    by (simp add: parse_int_def py_str_int_def)
qed

lemma hex_val_hex_char: "d < 16 \<Longrightarrow> hex_val (hex_char d) = Some d"
  by (simp add: hex_val_def hex_char_def Let_def)

lemma hex_recombine:
  fixes n :: nat
  assumes "n < 256"
  shows "n div 16 mod 16 * 16 + n mod 16 = n"
proof -
  from assms have "n div 16 < 16" by simp
  then have "n div 16 mod 16 = n div 16" by simp
  then show ?thesis by simp
qed

lemma parse_chars_u_escape:
  assumes "a < 16" and "b < 16"
  shows "parse_chars (BACKSLASH # CHR ''u'' # hex_char 0 # hex_char 0 # hex_char a # hex_char b # s)
         = map_option (\<lambda>(x, t). (char_of (a * 16 + b) # x, t)) (parse_chars s)"
proof -
  have z: "hex_val (hex_char 0) = Some 0" by (rule hex_val_hex_char) simp
  have l: "a * 16 + b < 256" using assms by linarith
  show ?thesis
    using l by (simp add: z hex_val_hex_char [OF assms(1)] hex_val_hex_char [OF assms(2)])
qed

lemma parse_chars_escape_char:
  "parse_chars (json_escape_char c @ s) = map_option (\<lambda>(x, t). (c # x, t)) (parse_chars s)"
proof -
  let ?n = "of_char c :: nat"
  have n: "?n < 256" by (rule of_char_less_256)
  consider (special) "c = BACKSLASH \<or> c = DQUOTE \<or> c = CHR 0x08 \<or> c = CHR 0x0C \<or> c = NEWLINE
      \<or> c = CHR 0x0D \<or> c = CHR 0x09"
    | (plain) "c \<noteq> BACKSLASH" "c \<noteq> DQUOTE" "32 \<le> ?n" "?n \<le> 126"
    | (other) "c \<noteq> BACKSLASH" "c \<noteq> DQUOTE" "c \<noteq> CHR 0x08" "c \<noteq> CHR 0x0C" "c \<noteq> NEWLINE"
        "c \<noteq> CHR 0x0D" "c \<noteq> CHR 0x09" "\<not> (32 \<le> ?n \<and> ?n \<le> 126)"
    by blast
  then show ?thesis
  proof cases
    case special
    then show ?thesis
      by (auto simp: json_escape_char_def unescape_def)
  next
    case plain
    then have "json_escape_char c = [c]"
      by (auto simp: json_escape_char_def)
    with plain show ?thesis by simp
  next
    case other
    define a where "a = ?n div 16 mod 16"
    define b where "b = ?n mod 16"
    have ab: "a < 16" "b < 16" by (simp_all add: a_def b_def)
    have "?n < 4096" using n by linarith
    then have d: "?n div 4096 = 0" "?n div 256 = 0"
      using n by (simp_all only: div_less)
    have h: "?n div 4096 mod 16 = 0" "?n div 256 mod 16 = 0"
      unfolding d by simp_all
    have e: "json_escape_char c =
        [BACKSLASH, CHR ''u'', hex_char 0, hex_char 0, hex_char a, hex_char b]"
      using other h by (simp add: json_escape_char_def a_def b_def)
    have v: "a * 16 + b = ?n"
      unfolding a_def b_def using n by (rule hex_recombine)
    have "parse_chars (json_escape_char c @ s) =
        map_option (\<lambda>(x, t). (char_of (a * 16 + b) # x, t)) (parse_chars s)"
      unfolding e using parse_chars_u_escape [OF ab] by simp
    then show ?thesis
      unfolding v by simp
  qed
qed

lemma parse_chars_encode:
  "parse_chars (concat (map json_escape_char s) @ DQUOTE # rest) = Some (s, rest)"
  by (induction s) (simp_all add: parse_chars_escape_char)

lemma parse_chars_basestring:
  "parse_chars (tl (encode_basestring_ascii s) @ rest) = Some (s, rest)"
  using parse_chars_encode [of s rest] by (simp add: encode_basestring_ascii_def)

lemma py_join_Cons: "ys \<noteq> [] \<Longrightarrow> py_join sep (y # ys) = y @ sep @ py_join sep ys"
  by (cases ys) simp_all

lemma is_digit_plain:
  assumes "is_digit c"
  shows "\<not> is_ws c" "c \<noteq> CHR '']''" "c \<noteq> CHR ''}''" "c \<noteq> CHR ''n''" "c \<noteq> CHR ''t''"
    "c \<noteq> CHR ''f''" "c \<noteq> DQUOTE" "c \<noteq> CHR ''[''" "c \<noteq> CHR ''{''"
  using assms by (auto simp: is_digit_def is_ws_def)

lemma is_digit_hd_digits: "is_digit (hd (digits n))"
  using digits_all_digit [of n] digits_not_Nil [of n] by (cases "digits n") auto

lemma json_encode_first:
  "\<exists>c cs. json_encode level v = c # cs \<and> \<not> is_ws c \<and> c \<noteq> CHR '']'' \<and> c \<noteq> CHR ''}''"
proof (cases v)
  case (PInt i)
  obtain c cs where d: "digits (nat (- i)) = c # cs"
    using digits_not_Nil [of "nat (- i)"] by (cases "digits (nat (- i))") auto
  obtain c' cs' where d': "digits (nat i) = c' # cs'"
    using digits_not_Nil [of "nat i"] by (cases "digits (nat i)") auto
  have "is_digit c'" using is_digit_hd_digits [of "nat i"] d' by simp
  then show ?thesis
    using PInt d' by (auto simp: py_str_int_def dest: is_digit_plain)
qed (auto simp: encode_basestring_ascii_def)

lemma py_str_int_first:
  "\<exists>c cs. py_str_int i = c # cs \<and> (c = CHR ''-'' \<or> is_digit c)"
proof (cases "i < 0")
  case True
  then show ?thesis by (simp add: py_str_int_def)
next
  case False
  obtain c cs where d: "digits (nat i) = c # cs"
    using digits_not_Nil [of "nat i"] by (cases "digits (nat i)") auto
  have "is_digit c" using is_digit_hd_digits [of "nat i"] d by simp
  with False d show ?thesis by (simp add: py_str_int_def)
qed

lemma delimited_simps [simp]:
  "delimited []" "delimited (CHR '','' # s)" "delimited (NEWLINE # s)" "delimited (CHR '';'' # s)"
  "delimited (newline_indent level @ s)"
  by (simp_all add: delimited_def newline_indent_def)

lemma parse_items_join:
  assumes "xs \<noteq> []"
    and "\<And>x fuel level rest. x \<in> set xs \<Longrightarrow> size x < fuel \<Longrightarrow> delimited rest \<Longrightarrow>
           parse_value fuel (json_encode level x @ rest) = Some (x, rest)"
    and "size_list size xs < fuel"
  shows "parse_items fuel
           (py_join (CHR '','' # newline_indent L) (map (json_encode L) xs)
            @ newline_indent L' @ CHR '']'' # rest) = Some (xs, rest)"
  using assms
proof (induction xs arbitrary: fuel rule: list_nonempty_induct)
  case (single x)
  from single.prems(2) obtain f where f: "fuel = Suc f" "size x < f"
    by (cases fuel) auto
  have p: "parse_value f (json_encode L x @ newline_indent L' @ CHR '']'' # rest)
           = Some (x, newline_indent L' @ CHR '']'' # rest)"
    by (rule single.prems(1)) (use f in simp_all)
  show ?case
    by (simp add: f(1) p skip_ws_Cons)
next
  case (cons x xs)
  from cons.prems(2) obtain f where f: "fuel = Suc f" "size x < f" "size_list size xs < f"
    by (cases fuel) auto
  let ?tail = "py_join (CHR '','' # newline_indent L) (map (json_encode L) xs)
               @ newline_indent L' @ CHR '']'' # rest"
  have j: "py_join (CHR '','' # newline_indent L) (map (json_encode L) (x # xs))
           = json_encode L x @ (CHR '','' # newline_indent L)
             @ py_join (CHR '','' # newline_indent L) (map (json_encode L) xs)"
    using cons.hyps by (simp add: py_join_Cons)
  have p: "parse_value f (json_encode L x @ CHR '','' # newline_indent L @ ?tail)
           = Some (x, CHR '','' # newline_indent L @ ?tail)"
    by (rule cons.prems(1)) (use f in simp_all)
  have i: "parse_items f ?tail = Some (xs, rest)"
    by (rule cons.IH) (use cons.prems(1) f(3) in auto)
  have w: "parse_items f (newline_indent L @ ?tail) = parse_items f ?tail"
    by (rule parse_items_ws) simp
  show ?case
    unfolding j by (simp add: f(1) p skip_ws_Cons w i)
qed

lemma parse_pairs_step:
  "parse_pairs (Suc f) (encode_basestring_ascii k @ CHR '':'' # CHR '' '' # s) =
    (case parse_value f s of
       None \<Rightarrow> None
     | Some (v, r3) \<Rightarrow>
         (case skip_ws r3 of
            [] \<Rightarrow> None
          | c3 # t \<Rightarrow>
              if c3 = CHR ''}'' then Some ([(k, v)], t)
              else if c3 = CHR '','' then
                map_option (\<lambda>(kvs, u). ((k, v) # kvs, u)) (parse_pairs f t)
              else None))"
proof -
  have "parse_value f (CHR '' '' # s) = parse_value f s"
    by (rule parse_value_ws) (simp add: skip_ws_Cons)
  then show ?thesis
    by (simp add: encode_basestring_ascii_def skip_ws_Cons parse_chars_encode)
qed

lemma parse_pairs_join:
  assumes "kvs \<noteq> []"
    and "\<And>k v fuel level rest. (k, v) \<in> set kvs \<Longrightarrow> size v < fuel \<Longrightarrow> delimited rest \<Longrightarrow>
           parse_value fuel (json_encode level v @ rest) = Some (v, rest)"
    and "size_list (size_prod (\<lambda>x. 0) size) kvs < fuel"
  shows "parse_pairs fuel
           (py_join (CHR '','' # newline_indent L)
              (map (\<lambda>(k, v). encode_basestring_ascii k @ CHR '':'' # CHR '' '' # json_encode L v) kvs)
            @ newline_indent L' @ CHR ''}'' # rest) = Some (kvs, rest)"
  using assms
proof (induction kvs arbitrary: fuel rule: list_nonempty_induct)
  case (single kv)
  obtain k v where kv: "kv = (k, v)" by (cases kv)
  from single.prems(2) obtain f where f: "fuel = Suc f" "size v < f"
    by (cases fuel) (auto simp: kv)
  let ?after = "newline_indent L' @ CHR ''}'' # rest"
  have p: "parse_value f (json_encode L v @ ?after) = Some (v, ?after)"
    by (rule single.prems(1) [of k]) (use f kv in simp_all)
  show ?case
    by (simp add: f(1) kv parse_pairs_step p skip_ws_Cons del: parse_pairs.simps)
next
  case (cons kv kvs)
  obtain k v where kv: "kv = (k, v)" by (cases kv)
  from cons.prems(2) obtain f where
    f: "fuel = Suc f" "size v < f" "size_list (size_prod (\<lambda>x. 0) size) kvs < f"
    by (cases fuel) (auto simp: kv)
  let ?item = "\<lambda>(k, v). encode_basestring_ascii k @ CHR '':'' # CHR '' '' # json_encode L v"
  let ?tail = "py_join (CHR '','' # newline_indent L) (map ?item kvs)
               @ newline_indent L' @ CHR ''}'' # rest"
  let ?after = "CHR '','' # newline_indent L @ ?tail"
  have j: "py_join (CHR '','' # newline_indent L) (map ?item (kv # kvs))
           = ?item kv @ (CHR '','' # newline_indent L)
             @ py_join (CHR '','' # newline_indent L) (map ?item kvs)"
    using cons.hyps by (simp add: py_join_Cons)
  have p: "parse_value f (json_encode L v @ ?after) = Some (v, ?after)"
    by (rule cons.prems(1) [of k]) (use f kv in simp_all)
  have i: "parse_pairs f ?tail = Some (kvs, rest)"
  proof (rule cons.IH)
    fix k' v' fuel' level' rest'
    assume "(k', v') \<in> set kvs" "size v' < fuel'" "delimited rest'"
    then show "parse_value fuel' (json_encode level' v' @ rest') = Some (v', rest')"
      by (intro cons.prems(1) [of k']) simp_all
  next
    show "size_list (size_prod (\<lambda>x. 0) size) kvs < f" by (rule f(3))
  qed
  have w: "parse_pairs f (newline_indent L @ ?tail) = parse_pairs f ?tail"
    by (rule parse_pairs_ws) simp
  show ?case
    unfolding j
    by (simp add: f(1) kv parse_pairs_step p skip_ws_Cons w i del: parse_pairs.simps)
qed

lemma parse_value_json_encode:
  "size v < fuel \<Longrightarrow> delimited rest \<Longrightarrow>
   parse_value fuel (json_encode level v @ rest) = Some (v, rest)"
proof (induction v arbitrary: fuel level rest)
  case PNone
  then obtain f where "fuel = Suc f" by (cases fuel) auto
  then show ?case by (simp add: skip_ws_Cons)
next
  case (PBool b)
  then obtain f where "fuel = Suc f" by (cases fuel) auto
  then show ?case by (cases b) (simp_all add: skip_ws_Cons)
next
  case (PInt i)
  then obtain f where f: "fuel = Suc f" by (cases fuel) auto
  obtain c cs where c: "py_str_int i = c # cs" "c = CHR ''-'' \<or> is_digit c"
    using py_str_int_first [of i] by blast
  have w: "\<not> is_ws c" and n: "c \<noteq> CHR ''n''" "c \<noteq> CHR ''t''" "c \<noteq> CHR ''f''" "c \<noteq> DQUOTE"
    "c \<noteq> CHR ''[''" "c \<noteq> CHR ''{''"
    using c(2) by (auto dest: is_digit_plain)
  have "parse_int (c # cs @ rest) = Some (i, rest)"
    using parse_int_py_str_int [OF PInt.prems(2), of i] c(1) by simp
  then show ?case
    using w n by (simp add: f c(1) skip_ws_Cons)
next
  case (PStr s)
  then obtain f where "fuel = Suc f" by (cases fuel) auto
  then show ?case
    by (simp add: encode_basestring_ascii_def skip_ws_Cons parse_chars_encode)
next
  case (PList xs)
  from PList.prems(1) obtain f where f: "fuel = Suc f" "size_list size xs < f"
    by (cases fuel) auto
  show ?case
  proof (cases "xs = []")
    case True
    then show ?thesis by (simp add: f(1) skip_ws_Cons)
  next
    case False
    let ?tail = "py_join (CHR '','' # newline_indent (Suc level)) (map (json_encode (Suc level)) xs)
                 @ newline_indent level @ CHR '']'' # rest"
    have i: "parse_items f ?tail = Some (xs, rest)"
      using False
    proof (rule parse_items_join)
      fix x fuel' level' rest'
      assume "x \<in> set xs" "size x < fuel'" "delimited rest'"
      then show "parse_value fuel' (json_encode level' x @ rest') = Some (x, rest')"
        by (rule PList.IH)
    next
      show "size_list size xs < f" by (rule f(2))
    qed
    obtain x xs' where xs: "xs = x # xs'" using False by (cases xs) auto
    obtain c cs where c: "json_encode (Suc level) x = c # cs" "\<not> is_ws c" "c \<noteq> CHR '']''"
      using json_encode_first [of "Suc level" x] by blast
    have "\<exists>t. ?tail = c # t"
      using c(1) xs by (cases xs') simp_all
    then obtain t where t: "?tail = c # t" ..
    have s: "skip_ws ?tail = c # t"
      unfolding t using c(2) by (simp add: skip_ws_Cons)
    have w: "parse_items f (newline_indent (Suc level) @ ?tail) = parse_items f ?tail"
      by (rule parse_items_ws) simp
    have e: "json_encode level (PList xs) @ rest = CHR ''['' # newline_indent (Suc level) @ ?tail"
      using False by simp
    show ?thesis
      unfolding e using c(3) by (simp add: f(1) skip_ws_Cons s w i)
  qed
next
  case (PDict kvs)
  from PDict.prems(1) obtain f where
    f: "fuel = Suc f" "size_list (size_prod (\<lambda>x. 0) size) kvs < f"
    by (cases fuel) auto
  show ?case
  proof (cases "kvs = []")
    case True
    then show ?thesis by (simp add: f(1) skip_ws_Cons)
  next
    case False
    let ?item = "\<lambda>(k, v). encode_basestring_ascii k @ CHR '':'' # CHR '' '' # json_encode (Suc level) v"
    let ?tail = "py_join (CHR '','' # newline_indent (Suc level)) (map ?item kvs)
                 @ newline_indent level @ CHR ''}'' # rest"
    have i: "parse_pairs f ?tail = Some (kvs, rest)"
      using False
    proof (rule parse_pairs_join)
      fix k v fuel' level' rest'
      assume "(k, v) \<in> set kvs" "size v < fuel'" "delimited rest'"
      then show "parse_value fuel' (json_encode level' v @ rest') = Some (v, rest')"
        by (intro PDict.IH [of "(k, v)"]) simp_all
    next
      show "size_list (size_prod (\<lambda>x. 0) size) kvs < f" by (rule f(2))
    qed
    obtain kv kvs' where kvs: "kvs = kv # kvs'" using False by (cases kvs) auto
    have "\<exists>t. ?tail = DQUOTE # t"
      using kvs by (cases kvs'; cases kv) (simp_all add: encode_basestring_ascii_def)
    then obtain t where t: "?tail = DQUOTE # t" ..
    have s: "skip_ws ?tail = DQUOTE # t"
      unfolding t by (simp add: skip_ws_Cons)
    have w: "parse_pairs f (newline_indent (Suc level) @ ?tail) = parse_pairs f ?tail"
      by (rule parse_pairs_ws) simp
    have e: "json_encode level (PDict kvs) @ rest = CHR ''{'' # newline_indent (Suc level) @ ?tail"
      using False by simp
    show ?thesis
      unfolding e by (simp add: f(1) skip_ws_Cons s w i)
  qed
qed

lemma length_py_join:
  "sep \<noteq> [] \<Longrightarrow> sum_list (map (\<lambda>y. Suc (length y)) ys) \<le> Suc (length (py_join sep ys))"
proof (induction sep ys rule: py_join.induct)
  case (3 sep x y ys)
  then show ?case by (cases sep) simp_all
qed simp_all

lemma size_le_length_json_encode: "size v \<le> length (json_encode level v)"
proof (induction v arbitrary: level)
  case (PList xs)
  show ?case
  proof (cases "xs = []")
    case True
    then show ?thesis by simp
  next
    case False
    let ?sep = "CHR '','' # newline_indent (Suc level)"
    have "sum_list (map (\<lambda>x. Suc (size x)) xs)
          \<le> sum_list (map (\<lambda>x. Suc (length (json_encode (Suc level) x))) xs)"
      by (rule sum_list_mono) (simp add: PList.IH)
    also have "\<dots> = sum_list (map (\<lambda>y. Suc (length y)) (map (json_encode (Suc level)) xs))"
      by (simp add: comp_def)
    also have "\<dots> \<le> Suc (length (py_join ?sep (map (json_encode (Suc level)) xs)))"
      by (rule length_py_join) simp
    finally have "sum_list (map (\<lambda>x. Suc (size x)) xs)
          \<le> Suc (length (py_join ?sep (map (json_encode (Suc level)) xs)))" .
    moreover have "size_list size xs = sum_list (map (\<lambda>x. Suc (size x)) xs)"
      by (induction xs) simp_all
    ultimately show ?thesis
      using False by (simp add: newline_indent_def)
  qed
next
  case (PDict kvs)
  show ?case
  proof (cases "kvs = []")
    case True
    then show ?thesis by simp
  next
    case False
    let ?sep = "CHR '','' # newline_indent (Suc level)"
    let ?item = "\<lambda>(k, v). encode_basestring_ascii k @ CHR '':'' # CHR '' '' # json_encode (Suc level) v"
    have one: "Suc (size_prod (\<lambda>x. 0) size kv) \<le> Suc (length (?item kv))" if "kv \<in> set kvs" for kv
    proof -
      obtain k v where kv: "kv = (k, v)" by (cases kv)
      have "size v \<le> length (json_encode (Suc level) v)"
        by (rule PDict.IH [of kv]) (use that kv in simp_all)
      then show ?thesis by (simp add: kv encode_basestring_ascii_def)
    qed
    have "sum_list (map (\<lambda>kv. Suc (size_prod (\<lambda>x. 0) size kv)) kvs)
          \<le> sum_list (map (\<lambda>kv. Suc (length (?item kv))) kvs)"
      by (rule sum_list_mono) (rule one)
    also have "\<dots> = sum_list (map (\<lambda>y. Suc (length y)) (map ?item kvs))"
      by (simp add: comp_def)
    also have "\<dots> \<le> Suc (length (py_join ?sep (map ?item kvs)))"
      by (rule length_py_join) simp
    finally have "sum_list (map (\<lambda>kv. Suc (size_prod (\<lambda>x. 0) size kv)) kvs)
          \<le> Suc (length (py_join ?sep (map ?item kvs)))" .
    moreover have "size_list (size_prod (\<lambda>x. 0) size) kvs
          = sum_list (map (\<lambda>kv. Suc (size_prod (\<lambda>x. 0) size kv)) kvs)"
      by (induction kvs) simp_all
    ultimately show ?thesis
      using False by (simp add: newline_indent_def)
  qed
qed simp_all

lemma json_loads_json_dumps: "json_loads (json_dumps v) = Some v"
proof -
  have "size v < Suc (length (json_encode 0 v))"
    using size_le_length_json_encode [of v 0] by simp
  then have "parse_value (Suc (length (json_encode 0 v))) (json_encode 0 v @ []) = Some (v, [])"
    by (rule parse_value_json_encode) simp
  then show ?thesis
    by (simp add: json_loads_def json_dumps_def)
qed

lemma generate_typescript_eq:
  "generate_typescript enzymes =
     ts_header @ json_dumps (PList (map (\<lambda>d. PDict (dict_items d)) enzymes)) @ '';'' @ [NEWLINE]"
  by (simp add: generate_typescript_def ts_header_def Let_def)

lemma embedded_json_generate_typescript:
  "embedded_json (generate_typescript enzymes) =
     Some (json_dumps (PList (map (\<lambda>d. PDict (dict_items d)) enzymes)))"
  unfolding generate_typescript_eq embedded_json_def Let_def
  by simp

lemma record_of_dict_items: "record_of_dict (PDict (dict_items d)) = Some d"
  by (simp add: record_of_dict_def dict_items_def)

lemma records_of_items_dicts:
  "records_of_items (map (\<lambda>d. PDict (dict_items d)) enzymes) = Some enzymes"
  by (induction enzymes) (simp_all add: record_of_dict_items)

text \<open>The reader refuses texts that are not JSON.\<close>

lemma json_loads_refuses:
  "json_loads ''[1,]'' = None"
  "json_loads ''[1'' = None"
  "json_loads ''[01]'' = None"
  "json_loads ''[1.5]'' = None"
  "json_loads ''{}x'' = None"
  "json_loads ''[1, 2 ,3 ] '' = Some (PList [PInt 1, PInt 2, PInt 3])"
  by code_simp+

text \<open>Further facts about the loop, the decimal digits and the escapes.\<close>

lemma extract_enzyme_data_cuts:
  assumes "extract_enzyme_data e = Inr d"
  shows "getattr e ''fst5'' = Inr (forwardCut d)" and "getattr e ''fst3'' = Inr (reverseCut d)"
  using assms unfolding extract_enzyme_data_def
  by (auto split: sum.splits prod.splits)

lemma try_body_extract:
  assumes "extract_enzyme_data e = Inr d" "forwardCut d \<noteq> PNone" "reverseCut d \<noteq> PNone"
  shows "try_body e = Inr (Some d)"
  using assms extract_enzyme_data_cuts [OF assms(1)] by (simp add: try_body_def)

lemma appended_failed:
  assumes "extract_enzyme_data e = Inl err"
  shows "appended e = []"
  using assms by (auto simp: appended_def try_body_def split: sum.splits option.splits)

lemma py_str_int_2: "py_str_int 2 = ''2''"
  by (simp add: py_str_int_def length_digits_single digit_char_simps)

lemma of_char_hex_char:
  "d < 16 \<Longrightarrow> (of_char (hex_char d) :: nat) = (if d < 10 then 48 + d else 87 + d)"
  by (simp add: hex_char_def)

lemma hex_char_ascii:
  "d < 16 \<Longrightarrow> 32 \<le> (of_char (hex_char d) :: nat) \<and> (of_char (hex_char d) :: nat) \<le> 126"
  by (simp add: of_char_hex_char)

lemma json_escape_char_ascii:
  assumes "x \<in> set (json_escape_char c)"
  shows "32 \<le> (of_char x :: nat) \<and> (of_char x :: nat) \<le> 126"
  using assms hex_char_ascii [of "of_char c div 4096 mod 16"]
    hex_char_ascii [of "of_char c div 256 mod 16"] hex_char_ascii [of "of_char c div 16 mod 16"]
    hex_char_ascii [of "of_char c mod 16"]
  by (auto simp: json_escape_char_def split: if_splits)

lemma py_str_int_digit: "0 \<le> n \<Longrightarrow> n < 10 \<Longrightarrow> py_str_int n = [char_of (48 + nat n)]"
  by (simp add: py_str_int_def length_digits_single digit_char_def)

lemma py_str_int_neg: "n < 0 \<Longrightarrow> py_str_int n = CHR ''-'' # py_str_int (- n)"
  by (simp add: py_str_int_def)

lemma py_str_int_more:
  assumes "10 \<le> n"
  shows "py_str_int n = py_str_int (n div 10) @ py_str_int (n mod 10)"
proof -
  have a: "nat (n div 10) = nat n div 10" "nat (n mod 10) = nat n mod 10"
    using assms by (simp_all add: nat_div_distrib nat_mod_distrib)
  have "\<not> nat n < 10"
    using assms by linarith
  then have b: "digits (nat n) = digits (nat n div 10) @ [digit_char (nat n mod 10)]"
    by (subst digits.simps) simp
  have c: "digits (nat n mod 10) = [digit_char (nat n mod 10)]"
    by (simp add: length_digits_single)
  have d: "\<not> n < 0" "\<not> n div 10 < 0" "\<not> n mod 10 < 0"
    using assms by (simp_all add: not_less)
  show ?thesis
    by (simp add: py_str_int_def a b c d)
qed

lemma hex_char_simps:
  "hex_char 0 = CHR ''0''" "hex_char 14 = CHR ''e''" "hex_char 9 = CHR ''9''"
  by (simp_all add: hex_char_def char_of_def bit_Suc_0_iff)

section \<open>Overhang derivation\<close>

text \<open>
  Claim C1. For an enzyme whose raw stagger \<^verbatim>\<open>ovhg\<close> is an integer \<open>s\<close>,
  \<open>get_overhang_info\<close> returns a result (it raises nothing): \<open>(0, "blunt")\<close> for
  \<open>s = 0\<close>, \<open>(|s|, "5'")\<close> for \<open>s < 0\<close> and \<open>(s, "3'")\<close> for \<open>s > 0\<close>. The
  returned length is never negative, and the type is "blunt" exactly when \<open>s = 0\<close>,
  "5'" exactly when \<open>s < 0\<close> and "3'" exactly when \<open>s > 0\<close>.
\<close>

theorem get_overhang_info_int:
  assumes "enzyme_attrs e ''ovhg'' = Some (PInt s)"
  shows "\<exists>len ty. get_overhang_info e = Inr (PInt len, ty)
           \<and> len = (if s = 0 then 0 else if s < 0 then \<bar>s\<bar> else s)
           \<and> ty = (if s = 0 then ''blunt''
                   else if s < 0 then [CHR ''5'', APOSTROPHE] else [CHR ''3'', APOSTROPHE])
           \<and> 0 \<le> len
           \<and> (ty = ''blunt'') = (s = 0)
           \<and> (ty = [CHR ''5'', APOSTROPHE]) = (s < 0)
           \<and> (ty = [CHR ''3'', APOSTROPHE]) = (0 < s)"
  using assms by (simp add: get_overhang_info_def getattr_def)

theorem get_overhang_info_int_witness:
  "get_overhang_info \<lparr> enzyme_str = ''EcoRI'', enzyme_attrs = [''ovhg'' \<mapsto> PInt (- 4)] \<rparr>
     = Inr (PInt 4, [CHR ''5'', APOSTROPHE])"
  using get_overhang_info_int [of "\<lparr> enzyme_str = ''EcoRI'', enzyme_attrs = [''ovhg'' \<mapsto> PInt (- 4)] \<rparr>" "- 4"]
  by simp

section \<open>Defined cut positions\<close>

text \<open>
  Claim C2. Every record of the list that the pipeline emits has a forward cut and a
  reverse cut other than \<^verbatim>\<open>None\<close>; and an entry whose \<^verbatim>\<open>fst5\<close> or \<^verbatim>\<open>fst3\<close> is
  absent or \<^verbatim>\<open>None\<close> leaves no trace: the emitted list is the one obtained without that
  entry.
\<close>

theorem cuts_defined:
  "(\<forall>d \<in> set (sorted_enzymes es). forwardCut d \<noteq> PNone \<and> reverseCut d \<noteq> PNone)
   \<and> ((enzyme_attrs e ''fst5'' = None \<or> enzyme_attrs e ''fst5'' = Some PNone
        \<or> enzyme_attrs e ''fst3'' = None \<or> enzyme_attrs e ''fst3'' = Some PNone)
       \<longrightarrow> sorted_enzymes (pre @ e # post) = sorted_enzymes (pre @ post))"
proof (intro conjI ballI impI)
  fix d assume "d \<in> set (sorted_enzymes es)"
  then obtain e' where "try_body e' = Inr (Some d)"
    by (auto simp: set_sorted_enzymes dest: appended_cases)
  then show "forwardCut d \<noteq> PNone" and "reverseCut d \<noteq> PNone"
    by (rule try_body_Some)+
next
  assume "enzyme_attrs e ''fst5'' = None \<or> enzyme_attrs e ''fst5'' = Some PNone
        \<or> enzyme_attrs e ''fst3'' = None \<or> enzyme_attrs e ''fst3'' = Some PNone"
  then have "appended e = []"
    by (auto simp: appended_def try_body_def getattr_def split: sum.splits option.splits)
  then show "sorted_enzymes (pre @ e # post) = sorted_enzymes (pre @ post)"
    by (simp add: sorted_enzymes_def main_loop_appended)
qed

theorem cuts_defined_witness:
  "enzyme_attrs no_cut ''fst5'' = Some PNone
   \<and> sorted_enzymes ([SmaI] @ no_cut # [EcoRI]) = sorted_enzymes ([SmaI] @ [EcoRI])
   \<and> map forwardCut (sorted_enzymes [SmaI, EcoRI]) = [PInt 1, PInt 3]
   \<and> map reverseCut (sorted_enzymes [SmaI, EcoRI]) = [PInt (- 1), PInt 3]"
proof -
  have a: "enzyme_attrs no_cut ''fst5'' = Some PNone"
    by (simp add: no_cut_def)
  have b: "sorted_enzymes ([SmaI] @ no_cut # [EcoRI]) = sorted_enzymes ([SmaI] @ [EcoRI])"
    using cuts_defined [of "[]" no_cut "[SmaI]" "[EcoRI]"] a by simp
  have c: "sorted_enzymes [SmaI, EcoRI] =
             [\<lparr> name = ''EcoRI'', site = PStr ''GAATTC'', forwardCut = PInt 1,
                reverseCut = PInt (- 1), overhangLength = PInt 4,
                overhangType = [CHR ''5'', APOSTROPHE], suppliers = [PStr ''N'', PStr ''R''] \<rparr>,
              \<lparr> name = ''SmaI'', site = PStr ''CCCGGG'', forwardCut = PInt 3,
                reverseCut = PInt 3, overhangLength = PInt 0,
                overhangType = ''blunt'', suppliers = [] \<rparr>]"
    by (simp add: sorted_enzymes_def extraction_defs example_defs)
  show ?thesis using a b c by simp
qed

section \<open>Order of the emitted list\<close>

text \<open>
  Claim C3. The list of records that the pipeline emits is sorted ascending by \<open>name\<close>
  under the lexicographic comparison of strings by code point.
\<close>

theorem sorted_by_name: "sorted_wrt py_str_le (map name (sorted_enzymes es))"
proof -
  have "sorted (map name (sort_key name (main_loop es [])))"
    by (rule sorted_sort_key)
  then show ?thesis
    unfolding sorted_enzymes_def
    by (simp add: sorted_wrt_iff_nth_less py_str_le_iff)
qed

theorem sorted_by_name_witness:
  "map name (sorted_enzymes [SmaI, PstI, EcoRI]) = [''EcoRI'', ''PstI'', ''SmaI'']
   \<and> sorted_wrt py_str_le [''EcoRI'', ''PstI'', ''SmaI'']"
proof -
  have a: "map name (sorted_enzymes [SmaI, PstI, EcoRI]) = [''EcoRI'', ''PstI'', ''SmaI'']"
    by (simp add: sorted_enzymes_def extraction_defs example_defs)
  show ?thesis
    using sorted_by_name [of "[SmaI, PstI, EcoRI]"] unfolding a by (simp add: a)
qed

section \<open>Entries that fail extraction\<close>

text \<open>
  Claim C4. An entry whose extraction raises (an absent attribute, or a value of the wrong
  kind) is caught inside the loop and left out, and the run goes on with the other entries:
  what the run writes and prints is what it writes and prints without that entry. The other
  entries are all processed, those before the failing entry and those after it: every record
  that extraction returns for one of them with both cuts defined is in the emitted list, the
  emitted records are, each as many times, the records that the other entries append, and
  the printed count is their number. Extraction raises whenever one of the five attributes
  it reads is absent, and whenever the stagger is \<^verbatim>\<open>None\<close>.
\<close>

theorem failed_entry_skipped:
  "(extract_enzyme_data e = Inl err \<longrightarrow>
      main out (pre @ e # post) = main out (pre @ post)
      \<and> (\<forall>e' \<in> set (pre @ post). \<forall>d.
            extract_enzyme_data e' = Inr d \<and> forwardCut d \<noteq> PNone \<and> reverseCut d \<noteq> PNone
            \<longrightarrow> d \<in> set (sorted_enzymes (pre @ e # post)))
      \<and> mset (sorted_enzymes (pre @ e # post)) = mset (concat (map appended (pre @ post)))
      \<and> snd (main out (pre @ e # post)) =
          ''Generated '' @ out @ '' with ''
          @ py_str_int (int (length (concat (map appended (pre @ post))))) @ '' enzymes''
          @ [NEWLINE])
   \<and> (a \<in> set [''ovhg'', ''site'', ''fst5'', ''fst3'', ''suppl''] \<and> enzyme_attrs e a = None
        \<longrightarrow> extract_enzyme_data e = Inl AttributeError \<or> extract_enzyme_data e = Inl TypeError)
   \<and> (enzyme_attrs e ''ovhg'' = Some PNone \<longrightarrow> extract_enzyme_data e = Inl TypeError)"
proof (intro conjI impI ballI allI)
  assume f: "extract_enzyme_data e = Inl err"
  then have n: "appended e = []"
    by (rule appended_failed)
  then have s: "sorted_enzymes (pre @ e # post) = sorted_enzymes (pre @ post)"
    by (simp add: sorted_enzymes_def main_loop_appended)
  then show "main out (pre @ e # post) = main out (pre @ post)"
    by (simp add: main_def)
  show "mset (sorted_enzymes (pre @ e # post)) = mset (concat (map appended (pre @ post)))"
    unfolding s by (simp add: sorted_enzymes_def main_loop_appended)
  have "length (sorted_enzymes (pre @ e # post)) = length (concat (map appended (pre @ post)))"
    unfolding s by (simp add: sorted_enzymes_def main_loop_appended)
  then show "snd (main out (pre @ e # post)) =
          ''Generated '' @ out @ '' with ''
          @ py_str_int (int (length (concat (map appended (pre @ post))))) @ '' enzymes''
          @ [NEWLINE]"
    by (simp add: main_def Let_def)
  fix e' d
  assume m: "e' \<in> set (pre @ post)"
    and x: "extract_enzyme_data e' = Inr d \<and> forwardCut d \<noteq> PNone \<and> reverseCut d \<noteq> PNone"
  from x have "try_body e' = Inr (Some d)"
    by (simp add: try_body_extract)
  then have "d \<in> set (appended e')"
    by (simp add: appended_def)
  with m show "d \<in> set (sorted_enzymes (pre @ e # post))"
    unfolding s set_sorted_enzymes by blast
next
  assume "a \<in> set [''ovhg'', ''site'', ''fst5'', ''fst3'', ''suppl''] \<and> enzyme_attrs e a = None"
  then have "\<exists>x. extract_enzyme_data e = Inl x"
    by (auto simp: extract_enzyme_data_def get_overhang_info_def getattr_def
             split: sum.splits option.splits prod.splits if_splits)
  then obtain x where "extract_enzyme_data e = Inl x" ..
  then show "extract_enzyme_data e = Inl AttributeError \<or> extract_enzyme_data e = Inl TypeError"
    by (cases x) simp_all
next
  assume "enzyme_attrs e ''ovhg'' = Some PNone"
  then show "extract_enzyme_data e = Inl TypeError"
    by (simp add: extract_enzyme_data_def get_overhang_info_def getattr_def)
qed

theorem failed_entry_skipped_witness:
  "enzyme_attrs no_site ''site'' = None
   \<and> extract_enzyme_data no_site = Inl AttributeError
   \<and> main ''enzymes.ts'' ([SmaI] @ no_site # [EcoRI]) = main ''enzymes.ts'' ([SmaI] @ [EcoRI])
   \<and> sorted_enzymes ([SmaI] @ no_site # [EcoRI]) =
       [\<lparr> name = ''EcoRI'', site = PStr ''GAATTC'', forwardCut = PInt 1,
          reverseCut = PInt (- 1), overhangLength = PInt 4,
          overhangType = [CHR ''5'', APOSTROPHE], suppliers = [PStr ''N'', PStr ''R''] \<rparr>,
        \<lparr> name = ''SmaI'', site = PStr ''CCCGGG'', forwardCut = PInt 3,
          reverseCut = PInt 3, overhangLength = PInt 0,
          overhangType = ''blunt'', suppliers = [] \<rparr>]
   \<and> snd (main ''enzymes.ts'' ([SmaI] @ no_site # [EcoRI])) =
       ''Generated enzymes.ts with 2 enzymes'' @ [NEWLINE]"
proof -
  have a: "enzyme_attrs no_site ''site'' = None"
    by (simp add: no_site_def)
  have b: "extract_enzyme_data no_site = Inl AttributeError"
    by (simp add: no_site_def extract_enzyme_data_def get_overhang_info_def getattr_def)
  have c: "appended SmaI =
       [\<lparr> name = ''SmaI'', site = PStr ''CCCGGG'', forwardCut = PInt 3,
          reverseCut = PInt 3, overhangLength = PInt 0,
          overhangType = ''blunt'', suppliers = [] \<rparr>]"
    "appended EcoRI =
       [\<lparr> name = ''EcoRI'', site = PStr ''GAATTC'', forwardCut = PInt 1,
          reverseCut = PInt (- 1), overhangLength = PInt 4,
          overhangType = [CHR ''5'', APOSTROPHE], suppliers = [PStr ''N'', PStr ''R''] \<rparr>]"
    by (simp_all add: extraction_defs example_defs)
  have d: "sorted_enzymes ([SmaI] @ [EcoRI]) =
       [\<lparr> name = ''EcoRI'', site = PStr ''GAATTC'', forwardCut = PInt 1,
          reverseCut = PInt (- 1), overhangLength = PInt 4,
          overhangType = [CHR ''5'', APOSTROPHE], suppliers = [PStr ''N'', PStr ''R''] \<rparr>,
        \<lparr> name = ''SmaI'', site = PStr ''CCCGGG'', forwardCut = PInt 3,
          reverseCut = PInt 3, overhangLength = PInt 0,
          overhangType = ''blunt'', suppliers = [] \<rparr>]"
    by (simp add: sorted_enzymes_def main_loop_appended c)
  have m: "main ''enzymes.ts'' ([SmaI] @ no_site # [EcoRI]) = main ''enzymes.ts'' ([SmaI] @ [EcoRI])"
    and n: "snd (main ''enzymes.ts'' ([SmaI] @ no_site # [EcoRI])) =
          ''Generated '' @ ''enzymes.ts'' @ '' with ''
          @ py_str_int (int (length (concat (map appended ([SmaI] @ [EcoRI]))))) @ '' enzymes''
          @ [NEWLINE]"
    using failed_entry_skipped [of no_site AttributeError "''enzymes.ts''" "[SmaI]" "[EcoRI]"] b
    by blast+
  have s: "sorted_enzymes ([SmaI] @ no_site # [EcoRI]) = sorted_enzymes ([SmaI] @ [EcoRI])"
    by (simp add: sorted_enzymes_def main_loop_appended appended_failed [OF b])
  show ?thesis
    using a b m n unfolding s d by (simp add: c py_str_int_2)
qed

section \<open>Determinism\<close>

text \<open>
  Claim C5. What the run writes is determined by the catalog alone: run again on the same
  entries it writes the same text and prints the same line, and the written text does not
  depend on the output path. The order in which the collection yields its entries does not
  matter either: two enumerations of the same entries give the same output, provided the
  emitted records have distinct names (which the sort by name then puts in one fixed
  order).
\<close>

theorem main_deterministic:
  assumes "es' = es \<or> (mset es' = mset es \<and> distinct (map name (main_loop es [])))"
  shows "main out es' = main out es \<and> fst (main out' es') = fst (main out es)"
proof -
  have "sort_key name (main_loop es' []) = sort_key name (main_loop es [])"
    using assms
  proof
    assume "es' = es"
    then show ?thesis by simp
  next
    assume a: "mset es' = mset es \<and> distinct (map name (main_loop es []))"
    then have m: "mset (main_loop es []) = mset (main_loop es' [])"
      by (simp add: mset_main_loop)
    have "inj_on name (set (main_loop es []))"
      using a by (simp add: distinct_map)
    with m show ?thesis
      by (rule sort_key_eq_sort_key [symmetric])
  qed
  then show ?thesis
    by (simp add: main_def sorted_enzymes_def Let_def)
qed

theorem main_deterministic_witness:
  "mset [EcoRI, SmaI, no_cut] = mset [SmaI, no_cut, EcoRI]
   \<and> distinct (map name (main_loop [SmaI, no_cut, EcoRI] []))
   \<and> main ''enzymes.ts'' [EcoRI, SmaI, no_cut] = main ''enzymes.ts'' [SmaI, no_cut, EcoRI]
   \<and> fst (main ''out.ts'' [EcoRI, SmaI, no_cut]) = fst (main ''enzymes.ts'' [SmaI, no_cut, EcoRI])"
proof -
  have a: "mset [EcoRI, SmaI, no_cut] = mset [SmaI, no_cut, EcoRI]"
    by (simp add: add.commute)
  have b: "distinct (map name (main_loop [SmaI, no_cut, EcoRI] []))"
    by (simp add: extraction_defs example_defs)
  from a b have c: "[EcoRI, SmaI, no_cut] = [SmaI, no_cut, EcoRI]
      \<or> (mset [EcoRI, SmaI, no_cut] = mset [SmaI, no_cut, EcoRI]
          \<and> distinct (map name (main_loop [SmaI, no_cut, EcoRI] [])))"
    by blast
  show ?thesis
    using main_deterministic [OF c, of "''enzymes.ts''" "''out.ts''"] a b by blast
qed

section \<open>Round trip through the generated text\<close>

text \<open>
  Claim C6. For every record list, the JSON array embedded in the string that
  \<open>generate_typescript\<close> returns is the serialised list, reading it as JSON gives back
  the list of the records' dictionaries, item for item and member for member, and so the
  records read back from the generated text are exactly the records in memory: the same
  number of records with the same field values. In particular the text that the run writes
  for a catalog reads back as the sorted record list built from that catalog.
\<close>

theorem generated_text_round_trip:
  "embedded_json (generate_typescript enzymes)
     = Some (json_dumps (PList (map (\<lambda>d. PDict (dict_items d)) enzymes)))
   \<and> json_loads (json_dumps (PList (map (\<lambda>d. PDict (dict_items d)) enzymes)))
     = Some (PList (map (\<lambda>d. PDict (dict_items d)) enzymes))
   \<and> read_generated (generate_typescript enzymes) = Some enzymes
   \<and> map_option length (read_generated (generate_typescript enzymes)) = Some (length enzymes)
   \<and> read_generated (fst (main output_path AllEnzymes)) = Some (sorted_enzymes AllEnzymes)"
proof -
  have r: "read_generated (generate_typescript es) = Some es" for es
    by (simp add: read_generated_def embedded_json_generate_typescript json_loads_json_dumps
          records_of_items_dicts)
  have m: "fst (main output_path AllEnzymes) = generate_typescript (sorted_enzymes AllEnzymes)"
    by (simp add: main_def Let_def)
  show ?thesis
    unfolding m by (simp add: r embedded_json_generate_typescript json_loads_json_dumps)
qed

theorem generated_text_round_trip_witness:
  "read_generated (fst (main ''src/enzymes.ts'' [SmaI, EcoRI])) =
     Some [\<lparr> name = ''EcoRI'', site = PStr ''GAATTC'', forwardCut = PInt 1,
              reverseCut = PInt (- 1), overhangLength = PInt 4,
              overhangType = [CHR ''5'', APOSTROPHE], suppliers = [PStr ''N'', PStr ''R''] \<rparr>,
           \<lparr> name = ''SmaI'', site = PStr ''CCCGGG'', forwardCut = PInt 3,
              reverseCut = PInt 3, overhangLength = PInt 0,
              overhangType = ''blunt'', suppliers = [] \<rparr>]"
proof -
  have c: "sorted_enzymes [SmaI, EcoRI] =
             [\<lparr> name = ''EcoRI'', site = PStr ''GAATTC'', forwardCut = PInt 1,
                reverseCut = PInt (- 1), overhangLength = PInt 4,
                overhangType = [CHR ''5'', APOSTROPHE], suppliers = [PStr ''N'', PStr ''R''] \<rparr>,
              \<lparr> name = ''SmaI'', site = PStr ''CCCGGG'', forwardCut = PInt 3,
                reverseCut = PInt 3, overhangLength = PInt 0,
                overhangType = ''blunt'', suppliers = [] \<rparr>]"
    by (simp add: sorted_enzymes_def extraction_defs example_defs)
  show ?thesis
    using generated_text_round_trip [of "[]" "''src/enzymes.ts''" "[SmaI, EcoRI]"]
    unfolding c by simp
qed

section \<open>Layout of the generated text\<close>

text \<open>
  Claim C7. The string that \<open>generate_typescript\<close> returns is: the two lines of the
  banner comment, an empty line, the type import line, an empty line, the line opening the
  exported constant, the record list as JSON, a semicolon and one final newline. The JSON
  of a non-empty list has one object per record, indented by two spaces, whose members stand
  one per line, indented by four spaces, in the order name, site, forwardCut, reverseCut,
  overhangLength, overhangType, suppliers; a non-empty supplier list has its items one per
  line, indented by six spaces, and its closing bracket indented by four; the JSON of an
  empty list is \<^verbatim>\<open>[]\<close>. The text ends with a closing bracket, the semicolon and
  exactly one newline.

  The values are written as JSON writes them, at every depth: \<^verbatim>\<open>None\<close> as
  \<^verbatim>\<open>null\<close>; an integer in decimal, with a minus sign when negative, so that reading
  the digits gives the integer back; a string between double quotes, where a double quote,
  a backslash and a newline are escaped, every other printable ASCII character stands for
  itself, nothing but printable ASCII is written, and reading the characters up to the
  closing quote gives the string back. The text between the header and the semicolon is
  valid JSON: reading it gives the list of the records' dictionaries.
\<close>

theorem generate_typescript_layout:
  "generate_typescript enzymes =
     ''// Auto-generated from BioPython Bio.Restriction - DO NOT EDIT'' @ [NEWLINE]
     @ ''// Regenerate with: uv run generate-enzymes'' @ [NEWLINE]
     @ [NEWLINE]
     @ ''import type { RestrictionEnzyme } from '' @ [DQUOTE] @ ''./types.js'' @ [DQUOTE] @ '';''
     @ [NEWLINE]
     @ [NEWLINE]
     @ ''export const enzymes: RestrictionEnzyme[] = '' @ [NEWLINE]
     @ (if enzymes = [] then ''[]''
        else ''['' @ [NEWLINE] @ ''  ''
             @ py_join ('','' @ [NEWLINE] @ ''  '')
                 (map (\<lambda>d.
                    ''{'' @ [NEWLINE]
                    @ ''    '' @ [DQUOTE] @ ''name'' @ [DQUOTE] @ '': ''
                        @ [DQUOTE] @ concat (map json_escape_char (name d)) @ [DQUOTE]
                        @ '','' @ [NEWLINE]
                    @ ''    '' @ [DQUOTE] @ ''site'' @ [DQUOTE] @ '': ''
                        @ json_encode 2 (site d) @ '','' @ [NEWLINE]
                    @ ''    '' @ [DQUOTE] @ ''forwardCut'' @ [DQUOTE] @ '': ''
                        @ json_encode 2 (forwardCut d) @ '','' @ [NEWLINE]
                    @ ''    '' @ [DQUOTE] @ ''reverseCut'' @ [DQUOTE] @ '': ''
                        @ json_encode 2 (reverseCut d) @ '','' @ [NEWLINE]
                    @ ''    '' @ [DQUOTE] @ ''overhangLength'' @ [DQUOTE] @ '': ''
                        @ json_encode 2 (overhangLength d) @ '','' @ [NEWLINE]
                    @ ''    '' @ [DQUOTE] @ ''overhangType'' @ [DQUOTE] @ '': ''
                        @ [DQUOTE] @ concat (map json_escape_char (overhangType d)) @ [DQUOTE]
                        @ '','' @ [NEWLINE]
                    @ ''    '' @ [DQUOTE] @ ''suppliers'' @ [DQUOTE] @ '': ''
                        @ (if suppliers d = [] then ''[]''
                           else ''['' @ [NEWLINE] @ ''      ''
                                @ py_join ('','' @ [NEWLINE] @ ''      '')
                                    (map (json_encode 3) (suppliers d))
                                @ [NEWLINE] @ ''    ]'')
                        @ [NEWLINE]
                    @ ''  }'') enzymes)
             @ [NEWLINE] @ '']'')
     @ '';'' @ [NEWLINE]
   \<and> (\<exists>body. generate_typescript enzymes = body @ [CHR '']'', CHR '';'', NEWLINE])
   \<and> (\<forall>level. json_encode level PNone = ''null''
         \<and> (\<forall>n. json_encode level (PInt n) = py_str_int n)
         \<and> (\<forall>s. json_encode level (PStr s)
                  = [DQUOTE] @ concat (map json_escape_char s) @ [DQUOTE]))
   \<and> (\<forall>n. (n < 0 \<longrightarrow> py_str_int n = CHR ''-'' # py_str_int (- n))
         \<and> (0 \<le> n \<and> n < 10 \<longrightarrow> py_str_int n = [char_of (48 + nat n)])
         \<and> (10 \<le> n \<longrightarrow> py_str_int n = py_str_int (n div 10) @ py_str_int (n mod 10))
         \<and> parse_int (py_str_int n) = Some (n, []))
   \<and> json_escape_char DQUOTE = [BACKSLASH, DQUOTE]
   \<and> json_escape_char BACKSLASH = [BACKSLASH, BACKSLASH]
   \<and> json_escape_char NEWLINE = [BACKSLASH, CHR ''n'']
   \<and> (\<forall>c. 32 \<le> (of_char c :: nat) \<and> (of_char c :: nat) \<le> 126 \<and> c \<noteq> DQUOTE
             \<and> c \<noteq> BACKSLASH \<longrightarrow> json_escape_char c = [c])
   \<and> (\<forall>c. \<forall>x \<in> set (json_escape_char c).
             32 \<le> (of_char x :: nat) \<and> (of_char x :: nat) \<le> 126)
   \<and> (\<forall>s rest. parse_chars (concat (map json_escape_char s) @ DQUOTE # rest) = Some (s, rest))
   \<and> (\<exists>js. embedded_json (generate_typescript enzymes) = Some js
          \<and> json_loads js = Some (PList (map (\<lambda>d. PDict (dict_items d)) enzymes)))"
proof -
  have keys:
    "encode_basestring_ascii ''name'' = [DQUOTE] @ ''name'' @ [DQUOTE]"
    "encode_basestring_ascii ''site'' = [DQUOTE] @ ''site'' @ [DQUOTE]"
    "encode_basestring_ascii ''forwardCut'' = [DQUOTE] @ ''forwardCut'' @ [DQUOTE]"
    "encode_basestring_ascii ''reverseCut'' = [DQUOTE] @ ''reverseCut'' @ [DQUOTE]"
    "encode_basestring_ascii ''overhangLength'' = [DQUOTE] @ ''overhangLength'' @ [DQUOTE]"
    "encode_basestring_ascii ''overhangType'' = [DQUOTE] @ ''overhangType'' @ [DQUOTE]"
    "encode_basestring_ascii ''suppliers'' = [DQUOTE] @ ''suppliers'' @ [DQUOTE]"
    by (simp_all add: encode_basestring_ascii_def json_escape_char_def)
  have ind: "newline_indent 0 = [NEWLINE]" "newline_indent (Suc 0) = NEWLINE # ''  ''"
    "newline_indent (Suc (Suc 0)) = NEWLINE # ''    ''"
    "newline_indent (Suc (Suc (Suc 0))) = NEWLINE # ''      ''"
    by (simp_all add: newline_indent_def numeral_eq_Suc)
  have sup: "json_encode 2 (PList xs) =
      (if xs = [] then ''[]''
       else ''['' @ [NEWLINE] @ ''      ''
            @ py_join ('','' @ [NEWLINE] @ ''      '') (map (json_encode 3) xs)
            @ [NEWLINE] @ ''    ]'')" for xs
    unfolding numeral_3_eq_3 numeral_2_eq_2 by (simp add: ind)
  have obj0: "json_encode (Suc 0) (PDict (dict_items d)) =
      ''{'' @ [NEWLINE]
      @ ''    '' @ [DQUOTE] @ ''name'' @ [DQUOTE] @ '': ''
          @ encode_basestring_ascii (name d) @ '','' @ [NEWLINE]
      @ ''    '' @ [DQUOTE] @ ''site'' @ [DQUOTE] @ '': ''
          @ json_encode 2 (site d) @ '','' @ [NEWLINE]
      @ ''    '' @ [DQUOTE] @ ''forwardCut'' @ [DQUOTE] @ '': ''
          @ json_encode 2 (forwardCut d) @ '','' @ [NEWLINE]
      @ ''    '' @ [DQUOTE] @ ''reverseCut'' @ [DQUOTE] @ '': ''
          @ json_encode 2 (reverseCut d) @ '','' @ [NEWLINE]
      @ ''    '' @ [DQUOTE] @ ''overhangLength'' @ [DQUOTE] @ '': ''
          @ json_encode 2 (overhangLength d) @ '','' @ [NEWLINE]
      @ ''    '' @ [DQUOTE] @ ''overhangType'' @ [DQUOTE] @ '': ''
          @ encode_basestring_ascii (overhangType d) @ '','' @ [NEWLINE]
      @ ''    '' @ [DQUOTE] @ ''suppliers'' @ [DQUOTE] @ '': ''
          @ json_encode 2 (PList (suppliers d)) @ [NEWLINE]
      @ ''  }''" for d
    unfolding numeral_2_eq_2
    by (simp add: dict_items_def keys ind del: json_encode.simps(5))
  have enc: "encode_basestring_ascii s = [DQUOTE] @ concat (map json_escape_char s) @ [DQUOTE]"
    for s
    by (simp add: encode_basestring_ascii_def)
  have obj: "json_encode (Suc 0) (PDict (dict_items d)) =
      ''{'' @ [NEWLINE]
      @ ''    '' @ [DQUOTE] @ ''name'' @ [DQUOTE] @ '': ''
          @ [DQUOTE] @ concat (map json_escape_char (name d)) @ [DQUOTE] @ '','' @ [NEWLINE]
      @ ''    '' @ [DQUOTE] @ ''site'' @ [DQUOTE] @ '': ''
          @ json_encode 2 (site d) @ '','' @ [NEWLINE]
      @ ''    '' @ [DQUOTE] @ ''forwardCut'' @ [DQUOTE] @ '': ''
          @ json_encode 2 (forwardCut d) @ '','' @ [NEWLINE]
      @ ''    '' @ [DQUOTE] @ ''reverseCut'' @ [DQUOTE] @ '': ''
          @ json_encode 2 (reverseCut d) @ '','' @ [NEWLINE]
      @ ''    '' @ [DQUOTE] @ ''overhangLength'' @ [DQUOTE] @ '': ''
          @ json_encode 2 (overhangLength d) @ '','' @ [NEWLINE]
      @ ''    '' @ [DQUOTE] @ ''overhangType'' @ [DQUOTE] @ '': ''
          @ [DQUOTE] @ concat (map json_escape_char (overhangType d)) @ [DQUOTE]
          @ '','' @ [NEWLINE]
      @ ''    '' @ [DQUOTE] @ ''suppliers'' @ [DQUOTE] @ '': ''
          @ (if suppliers d = [] then ''[]''
             else ''['' @ [NEWLINE] @ ''      ''
                  @ py_join ('','' @ [NEWLINE] @ ''      '')
                      (map (json_encode 3) (suppliers d))
                  @ [NEWLINE] @ ''    ]'')
          @ [NEWLINE]
      @ ''  }''" for d
    using obj0 [of d] unfolding sup enc by (simp only: append_assoc)
  have list: "json_dumps (PList (map (\<lambda>d. PDict (dict_items d)) enzymes)) =
      (if enzymes = [] then ''[]''
       else ''['' @ [NEWLINE] @ ''  ''
            @ py_join ('','' @ [NEWLINE] @ ''  '')
                (map (\<lambda>d. json_encode (Suc 0) (PDict (dict_items d))) enzymes)
            @ [NEWLINE] @ '']'')"
    by (simp add: json_dumps_def ind comp_def del: json_encode.simps(6))
  have main_eq: "generate_typescript enzymes =
     ''// Auto-generated from BioPython Bio.Restriction - DO NOT EDIT'' @ [NEWLINE]
     @ ''// Regenerate with: uv run generate-enzymes'' @ [NEWLINE]
     @ [NEWLINE]
     @ ''import type { RestrictionEnzyme } from '' @ [DQUOTE] @ ''./types.js'' @ [DQUOTE] @ '';''
     @ [NEWLINE]
     @ [NEWLINE]
     @ ''export const enzymes: RestrictionEnzyme[] = '' @ [NEWLINE]
     @ json_dumps (PList (map (\<lambda>d. PDict (dict_items d)) enzymes))
     @ '';'' @ [NEWLINE]"
    by (simp add: generate_typescript_def Let_def)
  have first: "generate_typescript enzymes =
     ''// Auto-generated from BioPython Bio.Restriction - DO NOT EDIT'' @ [NEWLINE]
     @ ''// Regenerate with: uv run generate-enzymes'' @ [NEWLINE]
     @ [NEWLINE]
     @ ''import type { RestrictionEnzyme } from '' @ [DQUOTE] @ ''./types.js'' @ [DQUOTE] @ '';''
     @ [NEWLINE]
     @ [NEWLINE]
     @ ''export const enzymes: RestrictionEnzyme[] = '' @ [NEWLINE]
     @ (if enzymes = [] then ''[]''
        else ''['' @ [NEWLINE] @ ''  ''
             @ py_join ('','' @ [NEWLINE] @ ''  '')
                 (map (\<lambda>d. json_encode (Suc 0) (PDict (dict_items d))) enzymes)
             @ [NEWLINE] @ '']'')
     @ '';'' @ [NEWLINE]"
    unfolding main_eq list ..
  have last: "\<exists>body. generate_typescript enzymes = body @ [CHR '']'', CHR '';'', NEWLINE]"
  proof (cases "enzymes = []")
    case True
    show ?thesis unfolding first using True
      by (intro exI [of _ "''// Auto-generated from BioPython Bio.Restriction - DO NOT EDIT'' @ [NEWLINE]
     @ ''// Regenerate with: uv run generate-enzymes'' @ [NEWLINE]
     @ [NEWLINE]
     @ ''import type { RestrictionEnzyme } from '' @ [DQUOTE] @ ''./types.js'' @ [DQUOTE] @ '';''
     @ [NEWLINE]
     @ [NEWLINE]
     @ ''export const enzymes: RestrictionEnzyme[] = '' @ [NEWLINE] @ ''[''"]) simp
  next
    case False
    show ?thesis unfolding first using False
      by (intro exI [of _ "''// Auto-generated from BioPython Bio.Restriction - DO NOT EDIT'' @ [NEWLINE]
     @ ''// Regenerate with: uv run generate-enzymes'' @ [NEWLINE]
     @ [NEWLINE]
     @ ''import type { RestrictionEnzyme } from '' @ [DQUOTE] @ ''./types.js'' @ [DQUOTE] @ '';''
     @ [NEWLINE]
     @ [NEWLINE]
     @ ''export const enzymes: RestrictionEnzyme[] = '' @ [NEWLINE] @ ''['' @ [NEWLINE] @ ''  ''
             @ py_join ('','' @ [NEWLINE] @ ''  '')
                 (map (\<lambda>d. json_encode (Suc 0) (PDict (dict_items d))) enzymes)
             @ [NEWLINE]"]) simp
  qed
  have vals: "\<forall>level. json_encode level PNone = ''null''
         \<and> (\<forall>n. json_encode level (PInt n) = py_str_int n)
         \<and> (\<forall>s. json_encode level (PStr s)
                  = [DQUOTE] @ concat (map json_escape_char s) @ [DQUOTE])"
    by (simp add: encode_basestring_ascii_def)
  have ints: "\<forall>n. (n < 0 \<longrightarrow> py_str_int n = CHR ''-'' # py_str_int (- n))
         \<and> (0 \<le> n \<and> n < 10 \<longrightarrow> py_str_int n = [char_of (48 + nat n)])
         \<and> (10 \<le> n \<longrightarrow> py_str_int n = py_str_int (n div 10) @ py_str_int (n mod 10))
         \<and> parse_int (py_str_int n) = Some (n, [])"
    using parse_int_py_str_int [of "[]"]
    by (simp add: py_str_int_digit py_str_int_neg py_str_int_more delimited_def)
  have esc: "json_escape_char DQUOTE = [BACKSLASH, DQUOTE]"
    "json_escape_char BACKSLASH = [BACKSLASH, BACKSLASH]"
    "json_escape_char NEWLINE = [BACKSLASH, CHR ''n'']"
    by (simp_all add: json_escape_char_def)
  have plain: "\<forall>c. 32 \<le> (of_char c :: nat) \<and> (of_char c :: nat) \<le> 126 \<and> c \<noteq> DQUOTE
             \<and> c \<noteq> BACKSLASH \<longrightarrow> json_escape_char c = [c]"
    by (auto simp: json_escape_char_def)
  have ascii: "\<forall>c. \<forall>x \<in> set (json_escape_char c).
             32 \<le> (of_char x :: nat) \<and> (of_char x :: nat) \<le> 126"
    using json_escape_char_ascii by blast
  have rd: "\<forall>s rest. parse_chars (concat (map json_escape_char s) @ DQUOTE # rest) = Some (s, rest)"
    by (simp add: parse_chars_encode)
  have valid: "\<exists>js. embedded_json (generate_typescript enzymes) = Some js
          \<and> json_loads js = Some (PList (map (\<lambda>d. PDict (dict_items d)) enzymes))"
    by (simp add: embedded_json_generate_typescript json_loads_json_dumps)
  have skel: "generate_typescript enzymes =
     ''// Auto-generated from BioPython Bio.Restriction - DO NOT EDIT'' @ [NEWLINE]
     @ ''// Regenerate with: uv run generate-enzymes'' @ [NEWLINE]
     @ [NEWLINE]
     @ ''import type { RestrictionEnzyme } from '' @ [DQUOTE] @ ''./types.js'' @ [DQUOTE] @ '';''
     @ [NEWLINE]
     @ [NEWLINE]
     @ ''export const enzymes: RestrictionEnzyme[] = '' @ [NEWLINE]
     @ (if enzymes = [] then ''[]''
        else ''['' @ [NEWLINE] @ ''  ''
             @ py_join ('','' @ [NEWLINE] @ ''  '')
                 (map (\<lambda>d.
                    ''{'' @ [NEWLINE]
                    @ ''    '' @ [DQUOTE] @ ''name'' @ [DQUOTE] @ '': ''
                        @ [DQUOTE] @ concat (map json_escape_char (name d)) @ [DQUOTE]
                        @ '','' @ [NEWLINE]
                    @ ''    '' @ [DQUOTE] @ ''site'' @ [DQUOTE] @ '': ''
                        @ json_encode 2 (site d) @ '','' @ [NEWLINE]
                    @ ''    '' @ [DQUOTE] @ ''forwardCut'' @ [DQUOTE] @ '': ''
                        @ json_encode 2 (forwardCut d) @ '','' @ [NEWLINE]
                    @ ''    '' @ [DQUOTE] @ ''reverseCut'' @ [DQUOTE] @ '': ''
                        @ json_encode 2 (reverseCut d) @ '','' @ [NEWLINE]
                    @ ''    '' @ [DQUOTE] @ ''overhangLength'' @ [DQUOTE] @ '': ''
                        @ json_encode 2 (overhangLength d) @ '','' @ [NEWLINE]
                    @ ''    '' @ [DQUOTE] @ ''overhangType'' @ [DQUOTE] @ '': ''
                        @ [DQUOTE] @ concat (map json_escape_char (overhangType d)) @ [DQUOTE]
                        @ '','' @ [NEWLINE]
                    @ ''    '' @ [DQUOTE] @ ''suppliers'' @ [DQUOTE] @ '': ''
                        @ (if suppliers d = [] then ''[]''
                           else ''['' @ [NEWLINE] @ ''      ''
                                @ py_join ('','' @ [NEWLINE] @ ''      '')
                                    (map (json_encode 3) (suppliers d))
                                @ [NEWLINE] @ ''    ]'')
                        @ [NEWLINE]
                    @ ''  }'') enzymes)
             @ [NEWLINE] @ '']'')
     @ '';'' @ [NEWLINE]"
    using first unfolding obj .
  show ?thesis
    using skel last vals ints esc plain ascii rd valid by blast
qed

theorem generate_typescript_layout_witness:
  "generate_typescript
     [\<lparr> name = ''EcoRI'', site = PStr ''GAATTC'', forwardCut = PInt 1, reverseCut = PInt (- 1),
        overhangLength = PInt 4, overhangType = [CHR ''5'', APOSTROPHE],
        suppliers = [PStr ''N'', PStr ''R''] \<rparr>,
      \<lparr> name = [CHR ''S'', DQUOTE, BACKSLASH, CHR 0xE9], site = PNone, forwardCut = PInt 0,
        reverseCut = PInt 1, overhangLength = PInt 0, overhangType = ''blunt'',
        suppliers = [] \<rparr>] =
     ''// Auto-generated from BioPython Bio.Restriction - DO NOT EDIT'' @ [NEWLINE]
     @ ''// Regenerate with: uv run generate-enzymes'' @ [NEWLINE]
     @ [NEWLINE]
     @ ''import type { RestrictionEnzyme } from '' @ [DQUOTE] @ ''./types.js'' @ [DQUOTE] @ '';''
     @ [NEWLINE]
     @ [NEWLINE]
     @ ''export const enzymes: RestrictionEnzyme[] = '' @ [NEWLINE]
     @ ''['' @ [NEWLINE]
     @ ''  {'' @ [NEWLINE]
     @ ''    '' @ [DQUOTE] @ ''name'' @ [DQUOTE] @ '': '' @ [DQUOTE] @ ''EcoRI'' @ [DQUOTE] @ '','' @ [NEWLINE]
     @ ''    '' @ [DQUOTE] @ ''site'' @ [DQUOTE] @ '': '' @ [DQUOTE] @ ''GAATTC'' @ [DQUOTE] @ '','' @ [NEWLINE]
     @ ''    '' @ [DQUOTE] @ ''forwardCut'' @ [DQUOTE] @ '': 1,'' @ [NEWLINE]
     @ ''    '' @ [DQUOTE] @ ''reverseCut'' @ [DQUOTE] @ '': -1,'' @ [NEWLINE]
     @ ''    '' @ [DQUOTE] @ ''overhangLength'' @ [DQUOTE] @ '': 4,'' @ [NEWLINE]
     @ ''    '' @ [DQUOTE] @ ''overhangType'' @ [DQUOTE] @ '': '' @ [DQUOTE, CHR ''5'', APOSTROPHE, DQUOTE] @ '','' @ [NEWLINE]
     @ ''    '' @ [DQUOTE] @ ''suppliers'' @ [DQUOTE] @ '': ['' @ [NEWLINE]
     @ ''      '' @ [DQUOTE] @ ''N'' @ [DQUOTE] @ '','' @ [NEWLINE]
     @ ''      '' @ [DQUOTE] @ ''R'' @ [DQUOTE] @ [NEWLINE]
     @ ''    ]'' @ [NEWLINE]
     @ ''  },'' @ [NEWLINE]
     @ ''  {'' @ [NEWLINE]
     @ ''    '' @ [DQUOTE] @ ''name'' @ [DQUOTE] @ '': ''
         @ [DQUOTE, CHR ''S'', BACKSLASH, DQUOTE, BACKSLASH, BACKSLASH, BACKSLASH] @ ''u00e9''
         @ [DQUOTE] @ '','' @ [NEWLINE]
     @ ''    '' @ [DQUOTE] @ ''site'' @ [DQUOTE] @ '': null,'' @ [NEWLINE]
     @ ''    '' @ [DQUOTE] @ ''forwardCut'' @ [DQUOTE] @ '': 0,'' @ [NEWLINE]
     @ ''    '' @ [DQUOTE] @ ''reverseCut'' @ [DQUOTE] @ '': 1,'' @ [NEWLINE]
     @ ''    '' @ [DQUOTE] @ ''overhangLength'' @ [DQUOTE] @ '': 0,'' @ [NEWLINE]
     @ ''    '' @ [DQUOTE] @ ''overhangType'' @ [DQUOTE] @ '': '' @ [DQUOTE] @ ''blunt'' @ [DQUOTE] @ '','' @ [NEWLINE]
     @ ''    '' @ [DQUOTE] @ ''suppliers'' @ [DQUOTE] @ '': []'' @ [NEWLINE]
     @ ''  }'' @ [NEWLINE]
     @ '']'' @ '';'' @ [NEWLINE]"
  using generate_typescript_layout
    [of "[\<lparr> name = ''EcoRI'', site = PStr ''GAATTC'', forwardCut = PInt 1, reverseCut = PInt (- 1),
        overhangLength = PInt 4, overhangType = [CHR ''5'', APOSTROPHE],
        suppliers = [PStr ''N'', PStr ''R''] \<rparr>,
      \<lparr> name = [CHR ''S'', DQUOTE, BACKSLASH, CHR 0xE9], site = PNone, forwardCut = PInt 0,
        reverseCut = PInt 1, overhangLength = PInt 0, overhangType = ''blunt'',
        suppliers = [] \<rparr>]", THEN conjunct1]
  by (simp add: encode_basestring_ascii_def json_escape_char_def py_str_int_small hex_char_simps)

section \<open>Field mapping of the extraction\<close>

text \<open>
  Claim C8, as amended. For an entry that has all five attributes, with an integer stagger
  and a supplier value that is a list or \<^verbatim>\<open>None\<close>, \<open>extract_enzyme_data\<close> returns the
  record that maps the entry field for field: the name, the site, the two cuts, the overhang
  length and type derived from the stagger, and the suppliers, where \<^verbatim>\<open>None\<close> gives the
  empty list. An entry that has no \<^verbatim>\<open>suppl\<close> attribute gets no default: the extraction
  raises and returns no record.
\<close>

theorem extract_enzyme_data_fields:
  "(enzyme_attrs e ''ovhg'' = Some (PInt s) \<and> enzyme_attrs e ''site'' = Some site_value
      \<and> enzyme_attrs e ''fst5'' = Some fst5 \<and> enzyme_attrs e ''fst3'' = Some fst3
      \<and> enzyme_attrs e ''suppl'' = Some suppl \<and> (suppl = PNone \<or> suppl = PList xs)
    \<longrightarrow> extract_enzyme_data e =
          Inr \<lparr> name = enzyme_str e, site = site_value, forwardCut = fst5, reverseCut = fst3,
                overhangLength = PInt \<bar>s\<bar>,
                overhangType = (if s = 0 then ''blunt''
                                else if s < 0 then [CHR ''5'', APOSTROPHE]
                                else [CHR ''3'', APOSTROPHE]),
                suppliers = (if suppl = PNone then [] else xs) \<rparr>)
   \<and> (enzyme_attrs e ''suppl'' = None
        \<longrightarrow> extract_enzyme_data e = Inl AttributeError \<or> extract_enzyme_data e = Inl TypeError)"
proof (intro conjI impI)
  assume "enzyme_attrs e ''ovhg'' = Some (PInt s) \<and> enzyme_attrs e ''site'' = Some site_value
      \<and> enzyme_attrs e ''fst5'' = Some fst5 \<and> enzyme_attrs e ''fst3'' = Some fst3
      \<and> enzyme_attrs e ''suppl'' = Some suppl \<and> (suppl = PNone \<or> suppl = PList xs)"
  then show "extract_enzyme_data e =
          Inr \<lparr> name = enzyme_str e, site = site_value, forwardCut = fst5, reverseCut = fst3,
                overhangLength = PInt \<bar>s\<bar>,
                overhangType = (if s = 0 then ''blunt''
                                else if s < 0 then [CHR ''5'', APOSTROPHE]
                                else [CHR ''3'', APOSTROPHE]),
                suppliers = (if suppl = PNone then [] else xs) \<rparr>"
    by (auto simp: extract_enzyme_data_def get_overhang_info_def getattr_def)
next
  assume "enzyme_attrs e ''suppl'' = None"
  then have "\<exists>x. extract_enzyme_data e = Inl x"
    by (auto simp: extract_enzyme_data_def getattr_def
             split: sum.splits option.splits prod.splits)
  then obtain x where "extract_enzyme_data e = Inl x" ..
  then show "extract_enzyme_data e = Inl AttributeError \<or> extract_enzyme_data e = Inl TypeError"
    by (cases x) simp_all
qed

theorem extract_enzyme_data_fields_witness:
  "extract_enzyme_data EcoRI =
     Inr \<lparr> name = ''EcoRI'', site = PStr ''GAATTC'', forwardCut = PInt 1, reverseCut = PInt (- 1),
           overhangLength = PInt 4, overhangType = [CHR ''5'', APOSTROPHE],
           suppliers = [PStr ''N'', PStr ''R''] \<rparr>
   \<and> extract_enzyme_data SmaI =
     Inr \<lparr> name = ''SmaI'', site = PStr ''CCCGGG'', forwardCut = PInt 3, reverseCut = PInt 3,
           overhangLength = PInt 0, overhangType = ''blunt'', suppliers = [] \<rparr>
   \<and> extract_enzyme_data PstI =
     Inr \<lparr> name = ''PstI'', site = PStr ''CTGCAG'', forwardCut = PInt 5, reverseCut = PInt 1,
           overhangLength = PInt 4, overhangType = [CHR ''3'', APOSTROPHE], suppliers = [] \<rparr>"
  using extract_enzyme_data_fields
          [of EcoRI "- 4" "PStr ''GAATTC''" "PInt 1" "PInt (- 1)" "PList [PStr ''N'', PStr ''R'']"
              "[PStr ''N'', PStr ''R'']"]
        extract_enzyme_data_fields
          [of SmaI 0 "PStr ''CCCGGG''" "PInt 3" "PInt 3" PNone "[]"]
        extract_enzyme_data_fields
          [of PstI 4 "PStr ''CTGCAG''" "PInt 5" "PInt 1" "PList []" "[]"]
  by (simp add: EcoRI_def SmaI_def PstI_def)

text \<open>
  The claim as it was written fails on an entry without the \<^verbatim>\<open>suppl\<close> attribute: no
  record with an empty supplier list comes out, the extraction raises \<^verbatim>\<open>AttributeError\<close>.
\<close>

theorem missing_suppl_not_defaulted:
  "enzyme_attrs no_suppl ''suppl'' = None
   \<and> extract_enzyme_data no_suppl = Inl AttributeError
   \<and> (\<forall>d. extract_enzyme_data no_suppl \<noteq> Inr d)"
  by (simp add: no_suppl_def extract_enzyme_data_def get_overhang_info_def getattr_def)

section \<open>The supplier default\<close>

text \<open>
  Claim C9. The default of the supplier list follows the truth value of \<^verbatim>\<open>suppl\<close>, not
  only \<^verbatim>\<open>None\<close>. Take an entry whose stagger gives an overhang and which has a site,
  two cuts and a \<^verbatim>\<open>suppl\<close> value. When the value is falsy, extraction returns the
  record with the empty supplier list: for \<^verbatim>\<open>None\<close>, the empty list, the empty string,
  the empty dictionary, the number 0 and \<^verbatim>\<open>False\<close> alike. When it is truthy,
  extraction returns the record with \<^verbatim>\<open>list(suppl)\<close>, element by element: a list gives
  its elements and a non-empty string the list of its characters as one-character strings;
  a truthy value that is not iterable (a number other than 0, \<^verbatim>\<open>True\<close>) makes the
  extraction raise \<^verbatim>\<open>TypeError\<close>. Conversely, in every record that the extraction
  returns, the suppliers are the empty list when \<^verbatim>\<open>suppl\<close> is falsy and
  \<^verbatim>\<open>list(suppl)\<close> when it is truthy.
\<close>

theorem suppliers_by_truth_value:
  "(get_overhang_info e = Inr (len, ty) \<and> enzyme_attrs e ''site'' = Some site_value
      \<and> enzyme_attrs e ''fst5'' = Some fst5 \<and> enzyme_attrs e ''fst3'' = Some fst3
      \<and> enzyme_attrs e ''suppl'' = Some suppl
    \<longrightarrow> (let r = \<lparr> name = enzyme_str e, site = site_value, forwardCut = fst5,
                     reverseCut = fst3, overhangLength = len, overhangType = ty,
                     suppliers = [] \<rparr>
         in (\<not> py_truthy suppl \<longrightarrow> extract_enzyme_data e = Inr r)
          \<and> (py_truthy suppl \<longrightarrow>
               extract_enzyme_data e =
                 (case py_list suppl of Inl x \<Rightarrow> Inl x | Inr xs \<Rightarrow> Inr (r\<lparr> suppliers := xs \<rparr>)))
          \<and> (suppl \<in> {PNone, PList [], PStr [], PDict [], PInt 0, PBool False}
               \<longrightarrow> extract_enzyme_data e = Inr r)
          \<and> (\<forall>xs. suppl = PList xs \<longrightarrow> extract_enzyme_data e = Inr (r\<lparr> suppliers := xs \<rparr>))
          \<and> (\<forall>s. suppl = PStr s
               \<longrightarrow> extract_enzyme_data e = Inr (r\<lparr> suppliers := map (\<lambda>c. PStr [c]) s \<rparr>))
          \<and> ((\<exists>n. suppl = PInt n \<and> n \<noteq> 0) \<or> suppl = PBool True
               \<longrightarrow> extract_enzyme_data e = Inl TypeError)))
   \<and> (extract_enzyme_data e = Inr d
      \<longrightarrow> (\<exists>suppl. enzyme_attrs e ''suppl'' = Some suppl
           \<and> (if py_truthy suppl then py_list suppl = Inr (suppliers d) else suppliers d = [])
           \<and> (suppl = PNone \<or> suppl = PList [] \<or> suppl = PStr [] \<longrightarrow> suppliers d = [])
           \<and> (\<forall>xs. suppl = PList xs \<longrightarrow> suppliers d = xs)
           \<and> (\<forall>s. suppl = PStr s \<longrightarrow> suppliers d = map (\<lambda>c. PStr [c]) s)))"
proof (intro conjI impI)
  assume h: "get_overhang_info e = Inr (len, ty) \<and> enzyme_attrs e ''site'' = Some site_value
      \<and> enzyme_attrs e ''fst5'' = Some fst5 \<and> enzyme_attrs e ''fst3'' = Some fst3
      \<and> enzyme_attrs e ''suppl'' = Some suppl"
  define r where "r = \<lparr> name = enzyme_str e, site = site_value, forwardCut = fst5,
                     reverseCut = fst3, overhangLength = len, overhangType = ty,
                     suppliers = [] \<rparr>"
  have x: "extract_enzyme_data e =
      (case (if py_truthy suppl then py_list suppl else Inr []) of
         Inl x \<Rightarrow> Inl x | Inr xs \<Rightarrow> Inr (r\<lparr> suppliers := xs \<rparr>))"
    using h by (simp add: extract_enzyme_data_def getattr_def r_def split: sum.splits)
  have 1: "\<not> py_truthy suppl \<longrightarrow> extract_enzyme_data e = Inr r"
    unfolding x by (simp add: r_def)
  have 2: "py_truthy suppl \<longrightarrow>
               extract_enzyme_data e =
                 (case py_list suppl of Inl x \<Rightarrow> Inl x | Inr xs \<Rightarrow> Inr (r\<lparr> suppliers := xs \<rparr>))"
    unfolding x by simp
  have 3: "suppl \<in> {PNone, PList [], PStr [], PDict [], PInt 0, PBool False}
               \<longrightarrow> extract_enzyme_data e = Inr r"
    using 1 by auto
  have 4: "\<forall>xs. suppl = PList xs \<longrightarrow> extract_enzyme_data e = Inr (r\<lparr> suppliers := xs \<rparr>)"
    unfolding x by (simp add: r_def)
  have 5: "\<forall>s. suppl = PStr s
               \<longrightarrow> extract_enzyme_data e = Inr (r\<lparr> suppliers := map (\<lambda>c. PStr [c]) s \<rparr>)"
    unfolding x by (simp add: r_def)
  have 6: "(\<exists>n. suppl = PInt n \<and> n \<noteq> 0) \<or> suppl = PBool True
               \<longrightarrow> extract_enzyme_data e = Inl TypeError"
    unfolding x by auto
  show "let r = \<lparr> name = enzyme_str e, site = site_value, forwardCut = fst5,
                     reverseCut = fst3, overhangLength = len, overhangType = ty,
                     suppliers = [] \<rparr>
         in (\<not> py_truthy suppl \<longrightarrow> extract_enzyme_data e = Inr r)
          \<and> (py_truthy suppl \<longrightarrow>
               extract_enzyme_data e =
                 (case py_list suppl of Inl x \<Rightarrow> Inl x | Inr xs \<Rightarrow> Inr (r\<lparr> suppliers := xs \<rparr>)))
          \<and> (suppl \<in> {PNone, PList [], PStr [], PDict [], PInt 0, PBool False}
               \<longrightarrow> extract_enzyme_data e = Inr r)
          \<and> (\<forall>xs. suppl = PList xs \<longrightarrow> extract_enzyme_data e = Inr (r\<lparr> suppliers := xs \<rparr>))
          \<and> (\<forall>s. suppl = PStr s
               \<longrightarrow> extract_enzyme_data e = Inr (r\<lparr> suppliers := map (\<lambda>c. PStr [c]) s \<rparr>))
          \<and> ((\<exists>n. suppl = PInt n \<and> n \<noteq> 0) \<or> suppl = PBool True
               \<longrightarrow> extract_enzyme_data e = Inl TypeError)"
    unfolding Let_def r_def [symmetric] using 1 2 3 4 5 6 by blast
next
  assume "extract_enzyme_data e = Inr d"
  then obtain suppl where
    a: "enzyme_attrs e ''suppl'' = Some suppl" and
    b: "(if py_truthy suppl then py_list suppl else Inr []) = Inr (suppliers d)"
    by (rule extract_enzyme_data_suppl)
  show "\<exists>suppl. enzyme_attrs e ''suppl'' = Some suppl
           \<and> (if py_truthy suppl then py_list suppl = Inr (suppliers d) else suppliers d = [])
           \<and> (suppl = PNone \<or> suppl = PList [] \<or> suppl = PStr [] \<longrightarrow> suppliers d = [])
           \<and> (\<forall>xs. suppl = PList xs \<longrightarrow> suppliers d = xs)
           \<and> (\<forall>s. suppl = PStr s \<longrightarrow> suppliers d = map (\<lambda>c. PStr [c]) s)"
  proof (intro exI conjI allI impI)
    show "enzyme_attrs e ''suppl'' = Some suppl" by (rule a)
    show "if py_truthy suppl then py_list suppl = Inr (suppliers d) else suppliers d = []"
      using b by (cases "py_truthy suppl") simp_all
    show "suppliers d = []" if "suppl = PNone \<or> suppl = PList [] \<or> suppl = PStr []"
      using b that by auto
    show "suppliers d = xs" if "suppl = PList xs" for xs
      using b that by (cases xs) simp_all
    show "suppliers d = map (\<lambda>c. PStr [c]) s" if "suppl = PStr s" for s
      using b that by (cases s) simp_all
  qed
qed

theorem suppliers_by_truth_value_witness:
  "extract_enzyme_data SmaI =
     Inr \<lparr> name = ''SmaI'', site = PStr ''CCCGGG'', forwardCut = PInt 3, reverseCut = PInt 3,
           overhangLength = PInt 0, overhangType = ''blunt'', suppliers = [] \<rparr>
   \<and> extract_enzyme_data zero_suppl =
     Inr \<lparr> name = ''EcoRI'', site = PStr ''GAATTC'', forwardCut = PInt 1, reverseCut = PInt (- 1),
           overhangLength = PInt 4, overhangType = [CHR ''5'', APOSTROPHE], suppliers = [] \<rparr>
   \<and> extract_enzyme_data text_suppl =
     Inr \<lparr> name = ''EcoRI'', site = PStr ''GAATTC'', forwardCut = PInt 1, reverseCut = PInt (- 1),
           overhangLength = PInt 4, overhangType = [CHR ''5'', APOSTROPHE],
           suppliers = [PStr ''N'', PStr ''R''] \<rparr>"
proof -
  have a: "get_overhang_info SmaI = Inr (PInt 0, ''blunt'')
      \<and> enzyme_attrs SmaI ''site'' = Some (PStr ''CCCGGG'')
      \<and> enzyme_attrs SmaI ''fst5'' = Some (PInt 3) \<and> enzyme_attrs SmaI ''fst3'' = Some (PInt 3)
      \<and> enzyme_attrs SmaI ''suppl'' = Some PNone"
    by (simp add: get_overhang_info_def getattr_def SmaI_def)
  have b: "get_overhang_info zero_suppl = Inr (PInt 4, [CHR ''5'', APOSTROPHE])
      \<and> enzyme_attrs zero_suppl ''site'' = Some (PStr ''GAATTC'')
      \<and> enzyme_attrs zero_suppl ''fst5'' = Some (PInt 1)
      \<and> enzyme_attrs zero_suppl ''fst3'' = Some (PInt (- 1))
      \<and> enzyme_attrs zero_suppl ''suppl'' = Some (PInt 0)"
    by (simp add: get_overhang_info_def getattr_def zero_suppl_def)
  have c: "get_overhang_info text_suppl = Inr (PInt 4, [CHR ''5'', APOSTROPHE])
      \<and> enzyme_attrs text_suppl ''site'' = Some (PStr ''GAATTC'')
      \<and> enzyme_attrs text_suppl ''fst5'' = Some (PInt 1)
      \<and> enzyme_attrs text_suppl ''fst3'' = Some (PInt (- 1))
      \<and> enzyme_attrs text_suppl ''suppl'' = Some (PStr ''NR'')"
    by (simp add: get_overhang_info_def getattr_def text_suppl_def)
  have n: "enzyme_str SmaI = ''SmaI''" "enzyme_str zero_suppl = ''EcoRI''"
    "enzyme_str text_suppl = ''EcoRI''"
    by (simp_all add: SmaI_def zero_suppl_def text_suppl_def)
  have 1: "extract_enzyme_data SmaI =
     Inr \<lparr> name = ''SmaI'', site = PStr ''CCCGGG'', forwardCut = PInt 3, reverseCut = PInt 3,
           overhangLength = PInt 0, overhangType = ''blunt'', suppliers = [] \<rparr>"
    using suppliers_by_truth_value [THEN conjunct1, rule_format, OF a]
    by (simp add: Let_def n)
  have 2: "extract_enzyme_data zero_suppl =
     Inr \<lparr> name = ''EcoRI'', site = PStr ''GAATTC'', forwardCut = PInt 1, reverseCut = PInt (- 1),
           overhangLength = PInt 4, overhangType = [CHR ''5'', APOSTROPHE], suppliers = [] \<rparr>"
    using suppliers_by_truth_value [THEN conjunct1, rule_format, OF b]
    by (simp add: Let_def n)
  have 3: "extract_enzyme_data text_suppl =
     Inr \<lparr> name = ''EcoRI'', site = PStr ''GAATTC'', forwardCut = PInt 1, reverseCut = PInt (- 1),
           overhangLength = PInt 4, overhangType = [CHR ''5'', APOSTROPHE],
           suppliers = [PStr ''N'', PStr ''R''] \<rparr>"
    using suppliers_by_truth_value [THEN conjunct1, rule_format, OF c]
    by (simp add: Let_def n)
  from 1 2 3 show ?thesis by simp
qed

section \<open>The empty catalog\<close>

text \<open>
  Claim C10. When the catalog has no entry, or every entry is skipped, the run still writes
  a complete text: the banner, the import line and the exported constant bound to the empty
  array \<^verbatim>\<open>[]\<close>, with the semicolon and the final newline; and the line it prints reports
  0 enzymes.
\<close>

theorem empty_catalog_output:
  assumes "\<forall>e \<in> set es. \<forall>d. try_body e \<noteq> Inr (Some d)"
  shows "main out es =
     (''// Auto-generated from BioPython Bio.Restriction - DO NOT EDIT'' @ [NEWLINE]
      @ ''// Regenerate with: uv run generate-enzymes'' @ [NEWLINE]
      @ [NEWLINE]
      @ ''import type { RestrictionEnzyme } from '' @ [DQUOTE] @ ''./types.js'' @ [DQUOTE] @ '';''
      @ [NEWLINE]
      @ [NEWLINE]
      @ ''export const enzymes: RestrictionEnzyme[] = '' @ [NEWLINE]
      @ ''[];'' @ [NEWLINE],
      ''Generated '' @ out @ '' with 0 enzymes'' @ [NEWLINE])"
proof -
  have "appended e = []" if "e \<in> set es" for e
    using assms that by (cases "try_body e") (auto simp: appended_def split: option.splits)
  then have c: "concat (map appended es) = []"
    by simp
  have "sorted_enzymes es = []"
    unfolding sorted_enzymes_def main_loop_appended c by simp
  then show ?thesis
    by (simp add: main_def generate_typescript_def json_dumps_def py_str_int_small)
qed

theorem empty_catalog_output_witness:
  "main ''src/enzymes.ts'' [] = main ''src/enzymes.ts'' [no_cut, no_site]
   \<and> snd (main ''src/enzymes.ts'' [no_cut, no_site]) =
       ''Generated src/enzymes.ts with 0 enzymes'' @ [NEWLINE]"
proof -
  have a: "\<forall>e \<in> set [no_cut, no_site]. \<forall>d. try_body e \<noteq> Inr (Some d)"
    by (simp add: no_cut_def no_site_def extraction_defs)
  show ?thesis
    using empty_catalog_output [OF a, of "''src/enzymes.ts''"]
          empty_catalog_output [of "[]" "''src/enzymes.ts''"]
    by simp
qed

end
